theory Spec2Isabelle
  imports Main "HOL-Library.Word" "HOL-Library.Sublist"
begin

section \<open>Errors\<close>

text \<open>
  \<^verbatim>\<open>RespError\<close> is declared outside \<^verbatim>\<open>client.go\<close>; \<^verbatim>\<open>MakeRequest\<close> only reads its
  \<^verbatim>\<open>ErrCode\<close> field.
\<close>

record RespError =
  ErrCode :: string
  Err :: string

text \<open>
  Go's \<^verbatim>\<open>error\<close> values that the two files build or pass on: an opaque error with its
  text, a \<^verbatim>\<open>RespError\<close>, the \<^verbatim>\<open>HTTPError\<close> struct of \<^verbatim>\<open>client.go\<close> (fields in the
  order of the declaration), and the result of \<^verbatim>\<open>fmt.Errorf("<prefix>%w", err)\<close>.
\<close>

datatype error =
    ErrorString string
  | RespErrorE RespError
  | HTTPError (WrappedError: "error option") (RespErrorOf: "RespError option")
      (Message: string) (Code: int)
  | Errorf_w string error

text \<open>\<^verbatim>\<open>%d\<close> of \<^verbatim>\<open>fmt.Sprintf\<close>: the decimal digits, with a minus sign below zero.\<close>

fun digits :: "nat \<Rightarrow> string" where
  "digits n = (if n < 10 then [''0123456789'' ! n]
               else digits (n div 10) @ [''0123456789'' ! (n mod 10)])"

declare digits.simps [simp del]

definition itoa :: "int \<Rightarrow> string" where
  "itoa i = (if i < 0 then CHR ''-'' # digits (nat (- i)) else digits (nat i))"

text \<open>
  The \<^verbatim>\<open>Error()\<close> method. The rendering of a \<^verbatim>\<open>RespError\<close> is declared outside the two
  files and is the parameter \<open>rs\<close>. The \<^verbatim>\<open>HTTPError\<close> case is \<^verbatim>\<open>HTTPError.Error\<close> of
  \<^verbatim>\<open>client.go\<close>.
\<close>

fun Error :: "(RespError \<Rightarrow> string) \<Rightarrow> error \<Rightarrow> string" where
  "Error rs (ErrorString s) = s"
| "Error rs (RespErrorE r) = rs r"
| "Error rs (HTTPError w r m c) =
     (let wrappedErrMsg = (case w of None \<Rightarrow> [] | Some e \<Rightarrow> Error rs e)
      in ''msg='' @ m @ '' code='' @ itoa c @ '' wrapped='' @ wrappedErrMsg)"
| "Error rs (Errorf_w p e) = p @ Error rs e"

section \<open>The sync loop of \<^verbatim>\<open>client.go\<close>\<close>

subsection \<open>Data\<close>

text \<open>
  The two response structs are declared outside \<^verbatim>\<open>client.go\<close>. \<^verbatim>\<open>Sync\<close> reads
  \<^verbatim>\<open>NextBatch\<close> of the one and \<^verbatim>\<open>FilterID\<close> of the other; \<open>Payload\<close> stands for the
  remaining fields of a sync response, which \<^verbatim>\<open>Sync\<close> hands on unread.
\<close>

record RespSync =
  NextBatch :: string
  Payload :: string

record RespCreateFilter =
  FilterID :: string

text \<open>
  Modelled from the spec: the \<^verbatim>\<open>Storer\<close> interface and its implementation are not in
  \<^verbatim>\<open>client.go\<close>. The spec calls it a durable key-value holder for the continuation
  token and the filter identifier of an account, with load and save; a token that was
  never saved loads as the empty string.
\<close>

record Storer =
  next_batch :: "string \<rightharpoonup> string"
  filter_id :: "string \<rightharpoonup> string"

definition LoadNextBatch :: "Storer \<Rightarrow> string \<Rightarrow> string" where
  "LoadNextBatch st userID = (case next_batch st userID of None \<Rightarrow> [] | Some t \<Rightarrow> t)"

definition LoadFilterID :: "Storer \<Rightarrow> string \<Rightarrow> string" where
  "LoadFilterID st userID = (case filter_id st userID of None \<Rightarrow> [] | Some f \<Rightarrow> f)"

definition SaveNextBatch :: "Storer \<Rightarrow> string \<Rightarrow> string \<Rightarrow> Storer" where
  "SaveNextBatch st userID t = st\<lparr>next_batch := (next_batch st)(userID \<mapsto> t)\<rparr>"

definition SaveFilterID :: "Storer \<Rightarrow> string \<Rightarrow> string \<Rightarrow> Storer" where
  "SaveFilterID st userID f = st\<lparr>filter_id := (filter_id st)(userID \<mapsto> f)\<rparr>"

text \<open>
  Every call that \<^verbatim>\<open>Sync\<close> makes on a collaborator (the store, the syncer, the
  network, the clock), with its arguments, in the order of the calls.
\<close>

datatype call =
    CLoadNextBatch string
  | CLoadFilterID string
  | CGetFilterJSON string
  | CCreateFilter string
  | CSaveFilterID string string
  | CSyncRequest int string string bool string
  | COnFailedSync "RespSync option" error
  | CSleep int
  | CSaveNextBatch string string
  | CProcessResponse RespSync string

text \<open>
  The fields of \<^verbatim>\<open>Client\<close> that \<^verbatim>\<open>Sync\<close> and \<^verbatim>\<open>StopSync\<close> use. \<^verbatim>\<open>syncingID\<close> is a
  \<^verbatim>\<open>uint32\<close>. \<open>calls\<close> is not a field of the Go struct: it is the log of the calls
  made so far.
\<close>

record Client =
  UserID :: string
  SyncPresence :: string
  Store :: Storer
  syncingID :: "32 word"
  calls :: "call list"

definition called :: "call \<Rightarrow> Client \<Rightarrow> Client" where
  "called e cli = cli\<lparr>calls := calls cli @ [e]\<rparr>"

text \<open>The calls made between two states of the client.\<close>

definition since_calls :: "Client \<Rightarrow> Client \<Rightarrow> call list" where
  "since_calls cli cli' = drop (length (calls cli)) (calls cli')"

subsection \<open>The generation counter\<close>

definition incrementSyncingID :: "Client \<Rightarrow> 32 word \<times> Client" where
  "incrementSyncingID cli =
     (let cli' = cli\<lparr>syncingID := syncingID cli + 1\<rparr> in (syncingID cli', cli'))"

definition getSyncingID :: "Client \<Rightarrow> 32 word" where
  "getSyncingID cli = syncingID cli"

definition StopSync :: "Client \<Rightarrow> Client" where
  "StopSync cli = snd (incrementSyncingID cli)"

subsection \<open>One iteration of the loop\<close>

text \<open>
  What the environment does during one iteration of the loop of \<^verbatim>\<open>Sync\<close>:
  \<^item> \<open>others\<close>: how many times other goroutines called \<^verbatim>\<open>incrementSyncingID\<close>
    (through \<^verbatim>\<open>StopSync\<close> or another \<^verbatim>\<open>Sync\<close>) since the previous iteration, up to
    the return of this iteration's request;
  \<^item> \<open>resSync\<close>, \<open>err\<close>: the two results of \<^verbatim>\<open>SyncRequest\<close> (a nil pointer is \<open>None\<close>);
  \<^item> \<open>failed\<close>: the two results of \<^verbatim>\<open>Syncer.OnFailedSync\<close>, should it be called;
  \<^item> \<open>processed\<close>: the result of \<^verbatim>\<open>Syncer.ProcessResponse\<close>, should it be called.
\<close>

record sync_step =
  others :: nat
  resSync :: "RespSync option"
  err :: "error option"
  failed :: "int \<times> error option"
  processed :: "error option"

text \<open>The local variables of \<^verbatim>\<open>Sync\<close>.\<close>

record cycle =
  c_syncingID :: "32 word"
  c_nextBatch :: string
  c_filterID :: string

text \<open>
  How a call of \<^verbatim>\<open>Sync\<close> ends: it returns an error or nil; it panics on a nil
  pointer; or it is still blocked in a request that the environment has not answered.
\<close>

datatype outcome = Returned "error option" | Panicked | Blocked

datatype iteration = Continue cycle | Exit outcome

definition request :: "cycle \<Rightarrow> Client \<Rightarrow> call" where
  "request c cli =
     CSyncRequest 30000 (c_nextBatch c) (c_filterID c) False (SyncPresence cli)"

definition Sync_body :: "cycle \<Rightarrow> sync_step \<Rightarrow> Client \<Rightarrow> iteration \<times> Client" where
  "Sync_body c s cli0 =
     (let cli1 = called (request c cli0) cli0;
          cli = cli1\<lparr>syncingID := syncingID cli1 + of_nat (others s)\<rparr>
      in case err s of
           Some e \<Rightarrow>
             (let cli2 = called (COnFailedSync (resSync s) e) cli
              in case snd (failed s) of
                   Some err2 \<Rightarrow> (Exit (Returned (Some err2)), cli2)
                 | None \<Rightarrow> (Continue c, called (CSleep (fst (failed s))) cli2))
         | None \<Rightarrow>
             if getSyncingID cli \<noteq> c_syncingID c then (Exit (Returned None), cli)
             else
               (case resSync s of
                  None \<Rightarrow> (Exit Panicked, cli)
                | Some r \<Rightarrow>
                    (let cli2 = called (CSaveNextBatch (UserID cli) (NextBatch r))
                                  (cli\<lparr>Store := SaveNextBatch (Store cli) (UserID cli) (NextBatch r)\<rparr>);
                         cli3 = called (CProcessResponse r (c_nextBatch c)) cli2
                     in case processed s of
                          Some e \<Rightarrow> (Exit (Returned (Some e)), cli3)
                        | None \<Rightarrow> (Continue (c\<lparr>c_nextBatch := NextBatch r\<rparr>), cli3))))"

subsection \<open>The loop and \<^verbatim>\<open>Sync\<close>\<close>

text \<open>
  The loop runs against the answers of the environment, one \<open>sync_step\<close> for each
  request that returns. When the answers are used up, the cycle has sent its next
  request and stays blocked in it.
\<close>

fun Sync_loop :: "cycle \<Rightarrow> sync_step list \<Rightarrow> Client \<Rightarrow> outcome \<times> Client" where
  "Sync_loop c [] cli = (Blocked, called (request c cli) cli)"
| "Sync_loop c (s # ss) cli =
     (case Sync_body c s cli of
        (Exit out, cli') \<Rightarrow> (out, cli')
      | (Continue c', cli') \<Rightarrow> Sync_loop c' ss cli')"

text \<open>
  \<^verbatim>\<open>Sync\<close>. \<open>filterJSON\<close> is the answer of \<^verbatim>\<open>Syncer.GetFilterJSON\<close>, \<open>created\<close> the two
  results of \<^verbatim>\<open>CreateFilter\<close>, \<open>ss\<close> the answers to the requests of the loop.
\<close>

definition Sync ::
  "string \<Rightarrow> RespCreateFilter option \<times> error option \<Rightarrow> sync_step list \<Rightarrow> Client
   \<Rightarrow> outcome \<times> Client" where
  "Sync filterJSON created ss cli0 =
     (let (sid, cli1) = incrementSyncingID cli0;
          cli2 = called (CLoadNextBatch (UserID cli1)) cli1;
          nextBatch = LoadNextBatch (Store cli2) (UserID cli2);
          cli3 = called (CLoadFilterID (UserID cli2)) cli2;
          filterID = LoadFilterID (Store cli3) (UserID cli3)
      in if filterID = [] then
           (let cli4 = called (CGetFilterJSON (UserID cli3)) cli3;
                cli5 = called (CCreateFilter filterJSON) cli4
            in case snd created of
                 Some e \<Rightarrow> (Returned (Some e), cli5)
               | None \<Rightarrow>
                   (case fst created of
                      None \<Rightarrow> (Panicked, cli5)
                    | Some resFilter \<Rightarrow>
                        (let cli6 = called (CSaveFilterID (UserID cli5) (FilterID resFilter))
                                      (cli5\<lparr>Store := SaveFilterID (Store cli5) (UserID cli5)
                                                        (FilterID resFilter)\<rparr>)
                         in Sync_loop \<lparr>c_syncingID = sid, c_nextBatch = nextBatch,
                                        c_filterID = FilterID resFilter\<rparr> ss cli6)))
         else Sync_loop \<lparr>c_syncingID = sid, c_nextBatch = nextBatch, c_filterID = filterID\<rparr>
                ss cli3)"

subsection \<open>Reading the log of calls\<close>

fun fetch_tokens :: "call list \<Rightarrow> string list" where
  "fetch_tokens [] = []"
| "fetch_tokens (CSyncRequest _ t _ _ _ # cs) = t # fetch_tokens cs"
| "fetch_tokens (_ # cs) = fetch_tokens cs"

fun saved_tokens :: "call list \<Rightarrow> (string \<times> string) list" where
  "saved_tokens [] = []"
| "saved_tokens (CSaveNextBatch u t # cs) = (u, t) # saved_tokens cs"
| "saved_tokens (_ # cs) = saved_tokens cs"

fun processed_payloads :: "call list \<Rightarrow> (RespSync \<times> string) list" where
  "processed_payloads [] = []"
| "processed_payloads (CProcessResponse r t # cs) = (r, t) # processed_payloads cs"
| "processed_payloads (_ # cs) = processed_payloads cs"

text \<open>
  The spec's account of a run of successful fetches, written from its words: from the
  token \<open>t\<close>, each payload is fetched with the token before it, its token is saved, and
  it is handed to the processor tagged with the token before it.
\<close>

fun applied :: "string \<Rightarrow> string \<Rightarrow> string \<Rightarrow> string \<Rightarrow> RespSync list \<Rightarrow> call list" where
  "applied u p f t [] = []"
| "applied u p f t (r # rs) =
     [CSyncRequest 30000 t f False p, CSaveNextBatch u (NextBatch r), CProcessResponse r t]
     @ applied u p f (NextBatch r) rs"

text \<open>
  The payloads that the environment hands to a cycle, in the order of the fetches: those
  of the fetches that return without error.
\<close>

fun payloads :: "sync_step list \<Rightarrow> RespSync list" where
  "payloads [] = []"
| "payloads (s # ss) =
     (case err s of
        Some e \<Rightarrow> payloads ss
      | None \<Rightarrow> (case resSync s of None \<Rightarrow> payloads ss | Some r \<Rightarrow> r # payloads ss))"

text \<open>
  A fetch that succeeds with a payload, and a fetch that fails with the failure handler
  asking for a retry.
\<close>

definition fetch_ok :: "sync_step \<Rightarrow> bool" where
  "fetch_ok s = (err s = None \<and> resSync s \<noteq> None)"

definition fetch_retried :: "sync_step \<Rightarrow> bool" where
  "fetch_retried s = (err s \<noteq> None \<and> snd (failed s) = None)"

fun is_create :: "call \<Rightarrow> bool" where
  "is_create (CCreateFilter _) = True"
| "is_create _ = False"

text \<open>Whether a call of \<^verbatim>\<open>Sync\<close> gets as far as its loop.\<close>

definition enters_loop :: "RespCreateFilter option \<times> error option \<Rightarrow> Client \<Rightarrow> bool" where
  "enters_loop cf cli =
     (if LoadFilterID (Store cli) (UserID cli) = [] then snd cf = None \<and> fst cf \<noteq> None
      else True)"

section \<open>HTTP requests and responses\<close>

text \<open>
  What the two files put into a request and read from a response. \<open>Timeout\<close> is the
  deadline of the request's context, when it has one. \<open>RespBody\<close> and \<open>ReadErr\<close> are the
  two results of \<^verbatim>\<open>ioutil.ReadAll\<close> on the body of the response.
\<close>

record Request =
  Method :: string
  URL :: string
  Timeout :: "int option"
  Header :: "string \<rightharpoonup> string"
  Body :: "string option"

record Response =
  StatusCode :: int
  RespBody :: string
  ReadErr :: "error option"

text \<open>\<^verbatim>\<open>time.Second\<close>, a \<^verbatim>\<open>time.Duration\<close> in nanoseconds.\<close>

definition Second :: int where
  "Second = 1000000000"

section \<open>Checkpoints of \<^verbatim>\<open>appservice/message_send_checkpoint.go\<close>\<close>

subsection \<open>The checkpoint and its constants\<close>

definition StepClient :: string where "StepClient = ''CLIENT''"
definition StepHomeserver :: string where "StepHomeserver = ''HOMESERVER''"
definition StepBridge :: string where "StepBridge = ''BRIDGE''"
definition StepDecrypted :: string where "StepDecrypted = ''DECRYPTED''"
definition StepRemote :: string where "StepRemote = ''REMOTE''"
definition StepCommand :: string where "StepCommand = ''COMMAND''"

definition StatusSuccesss :: string where "StatusSuccesss = ''SUCCESS''"
definition StatusWillRetry :: string where "StatusWillRetry = ''WILL_RETRY''"
definition StatusPermFailure :: string where "StatusPermFailure = ''PERM_FAILURE''"

definition ReportedByAsmux :: string where "ReportedByAsmux = ''ASMUX''"
definition ReportedByBridge :: string where "ReportedByBridge = ''BRIDGE''"

text \<open>
  The fields of \<^verbatim>\<open>event.Event\<close> that \<^verbatim>\<open>NewMessageSendCheckpoint\<close> reads. The package
  \<^verbatim>\<open>event\<close> is outside the two files: the type of event types is the parameter \<open>'t\<close>,
  and \<open>evt_MsgType\<close> is the value of \<^verbatim>\<open>evt.Content.AsMessage().MsgType\<close>. The event is
  behind a pointer, which the callers pass non-nil.
\<close>

record 't Event =
  evt_ID :: string
  evt_RoomID :: string
  evt_Type :: 't
  evt_MsgType :: string

record 't MessageSendCheckpoint =
  EventID :: string
  RoomID :: string
  Step :: string
  Timestamp :: int
  Status :: string
  EventType :: 't
  ReportedBy :: string
  RetryNum :: int
  MessageType :: string
  Info :: string

text \<open>
  \<^verbatim>\<open>NewMessageSendCheckpoint\<close>. \<open>EventMessage\<close> is the constant \<^verbatim>\<open>event.EventMessage\<close>
  and \<open>now\<close> the answer of \<^verbatim>\<open>time.Now()\<close>. The struct literal of the source sets seven
  fields; the other three have their zero values.
\<close>

definition NewMessageSendCheckpoint ::
  "'t \<Rightarrow> int \<Rightarrow> 't Event \<Rightarrow> string \<Rightarrow> string \<Rightarrow> 't MessageSendCheckpoint" where
  "NewMessageSendCheckpoint EventMessage now evt step status =
     (let checkpoint =
            \<lparr>EventID = evt_ID evt, RoomID = evt_RoomID evt, Step = step, Timestamp = now,
             Status = status, EventType = evt_Type evt, ReportedBy = ReportedByBridge,
             RetryNum = 0, MessageType = [], Info = []\<rparr>
      in if evt_Type evt = EventMessage
         then checkpoint\<lparr>MessageType := evt_MsgType evt\<rparr>
         else checkpoint)"

subsection \<open>Dispatch\<close>

record 't CheckpointsJSON =
  Checkpoints :: "'t MessageSendCheckpoint list"

record 't WebsocketRequest =
  Command :: string
  Data :: "'t CheckpointsJSON"

text \<open>
  The fields of \<^verbatim>\<open>AppService\<close> that \<^verbatim>\<open>SendCheckpoints\<close> reads; \<open>HasWebsocket\<close> is the
  answer of the method of this name, \<open>AppToken\<close> is \<^verbatim>\<open>Registration.AppToken\<close>.
\<close>

record AppService =
  HasWebsocket :: bool
  MessageSendCheckpointEndpoint :: string
  AppToken :: string

text \<open>
  The answers of the collaborators and of the library: \<^verbatim>\<open>as.SendWebsocket\<close>, the JSON
  encoder, \<^verbatim>\<open>http.NewRequestWithContext\<close> (method and URL; it fails on a URL that
  does not parse), \<^verbatim>\<open>http.DefaultClient.Do\<close> and the constant
  \<^verbatim>\<open>mautrix.DefaultUserAgent\<close>.
\<close>

record 't dispatch_env =
  SendWebsocket :: "'t WebsocketRequest \<Rightarrow> error option"
  json_Encode :: "'t CheckpointsJSON \<Rightarrow> error + string"
  NewRequestWithContext :: "string \<Rightarrow> string \<Rightarrow> error option"
  Do :: "Request \<Rightarrow> error + Response"
  DefaultUserAgent :: string

text \<open>What \<^verbatim>\<open>SendCheckpoints\<close> sends over the network.\<close>

datatype 't net_call = WebsocketSend "'t WebsocketRequest" | HTTPDo Request

text \<open>\<^verbatim>\<open>bytes.ReplaceAll(respBody, []byte("\n"), []byte("\\n"))\<close>.\<close>

fun escape_newlines :: "string \<Rightarrow> string" where
  "escape_newlines [] = []"
| "escape_newlines (c # cs) =
     (if c = CHR 0x0A then CHR 0x5C # CHR ''n'' # escape_newlines cs
      else c # escape_newlines cs)"

text \<open>The request that \<^verbatim>\<open>SendCheckpoints\<close> builds, with its three headers.\<close>

definition checkpoint_request :: "'t dispatch_env \<Rightarrow> AppService \<Rightarrow> string \<Rightarrow> Request" where
  "checkpoint_request env as body =
     \<lparr>Method = ''POST'', URL = MessageSendCheckpointEndpoint as, Timeout = Some (5 * Second),
      Header = [''Authorization'' \<mapsto> ''Bearer '' @ AppToken as,
                ''User-Agent'' \<mapsto> DefaultUserAgent env @ '' checkpoint sender'',
                ''Content-Type'' \<mapsto> ''application/json''],
      Body = Some body\<rparr>"

text \<open>\<^verbatim>\<open>SendCheckpoints\<close>: the error it returns and what it has sent.\<close>

definition SendCheckpoints ::
  "'t dispatch_env \<Rightarrow> AppService \<Rightarrow> 't MessageSendCheckpoint list
   \<Rightarrow> error option \<times> 't net_call list" where
  "SendCheckpoints env as checkpoints =
     (let checkpointsJSON = \<lparr>Checkpoints = checkpoints\<rparr>
      in if HasWebsocket as then
           (let req = \<lparr>Command = ''message_checkpoint'', Data = checkpointsJSON\<rparr>
            in (SendWebsocket env req, [WebsocketSend req]))
         else if MessageSendCheckpointEndpoint as = [] then (None, [])
         else
           (case json_Encode env checkpointsJSON of
              Inl e \<Rightarrow>
                (Some (Errorf_w ''failed to encode message send checkpoint JSON: '' e), [])
            | Inr body \<Rightarrow>
                (case NewRequestWithContext env ''POST'' (MessageSendCheckpointEndpoint as) of
                   Some e \<Rightarrow> (Some e, [])
                 | None \<Rightarrow>
                     (let req = checkpoint_request env as body
                      in case Do env req of
                           Inl e \<Rightarrow>
                             (Some (Errorf_w ''Failed to send bridge state update: '' e),
                              [HTTPDo req])
                         | Inr resp \<Rightarrow>
                             if StatusCode resp < 200 \<or> StatusCode resp > 299 then
                               (Some (ErrorString
                                  (''Unexpected status code '' @ itoa (StatusCode resp)
                                   @ '' sending bridge state update: ''
                                   @ escape_newlines (RespBody resp))),
                                [HTTPDo req])
                             else (None, [HTTPDo req])))))"

definition Send ::
  "'t dispatch_env \<Rightarrow> 't MessageSendCheckpoint \<Rightarrow> AppService
   \<Rightarrow> error option \<times> 't net_call list" where
  "Send env cp as = SendCheckpoints env as [cp]"

text \<open>
  The two helpers return nothing to their caller: they build a checkpoint and start
  \<^verbatim>\<open>checkpoint.Send(as)\<close> with \<^verbatim>\<open>go\<close>. The model returns the checkpoint and the result
  of the task that was started. \<open>rs\<close> renders a \<^verbatim>\<open>RespError\<close> (see \<open>Error\<close>); the error is
  an interface value, which the callers pass non-nil.
\<close>

definition SendMessageSendCheckpoint ::
  "'t \<Rightarrow> int \<Rightarrow> 't dispatch_env \<Rightarrow> AppService \<Rightarrow> 't Event \<Rightarrow> string
   \<Rightarrow> 't MessageSendCheckpoint \<times> (error option \<times> 't net_call list)" where
  "SendMessageSendCheckpoint EventMessage now env as evt step =
     (let checkpoint = NewMessageSendCheckpoint EventMessage now evt step StatusSuccesss
      in (checkpoint, Send env checkpoint as))"

definition SendErrorMessageSendCheckpoint ::
  "'t \<Rightarrow> int \<Rightarrow> 't dispatch_env \<Rightarrow> AppService \<Rightarrow> (RespError \<Rightarrow> string) \<Rightarrow> 't Event
   \<Rightarrow> string \<Rightarrow> error \<Rightarrow> bool
   \<Rightarrow> 't MessageSendCheckpoint \<times> (error option \<times> 't net_call list)" where
  "SendErrorMessageSendCheckpoint EventMessage now env as rs evt step e permanent =
     (let status = (if permanent then StatusPermFailure else StatusWillRetry);
          checkpoint = (NewMessageSendCheckpoint EventMessage now evt step status)
                         \<lparr>Info := Error rs e\<rparr>
      in (checkpoint, Send env checkpoint as))"

section \<open>\<^verbatim>\<open>MakeRequest\<close> of \<^verbatim>\<open>client.go\<close>\<close>

text \<open>Go's \<^verbatim>\<open>/\<close> on integers truncates towards zero.\<close>

definition quot :: "int \<Rightarrow> int \<Rightarrow> int" where
  "quot a b = sgn a * sgn b * (\<bar>a\<bar> div \<bar>b\<bar>)"

text \<open>The fields of \<^verbatim>\<open>Client\<close> that \<^verbatim>\<open>MakeRequest\<close> puts into the request.\<close>

record Credentials =
  UserAgent :: string
  AccessToken :: string

text \<open>
  The answers of the library to \<^verbatim>\<open>MakeRequest\<close>:
  \<^item> \<open>NewRequest\<close>: \<^verbatim>\<open>http.NewRequest\<close> for a method and a URL, an error or the request,
    of which \<^verbatim>\<open>MakeRequest\<close> reads \<^verbatim>\<open>URL.Path\<close>;
  \<^item> \<open>ClientDo\<close>: \<^verbatim>\<open>cli.Client.Do\<close>, an error or the response;
  \<^item> \<open>Unmarshal_RespError\<close>: the \<^verbatim>\<open>RespError\<close> that \<^verbatim>\<open>json.Unmarshal(contents, respErr)\<close>
    leaves in \<^verbatim>\<open>respErr\<close>, which starts empty (the source drops the error of this call);
  \<^item> \<open>Unmarshal_resBody\<close>: the error of \<^verbatim>\<open>json.Unmarshal(contents, &resBody)\<close>.
\<close>

record request_env =
  NewRequest :: "string \<Rightarrow> string \<Rightarrow> error + string"
  ClientDo :: "Request \<Rightarrow> error + Response"
  Unmarshal_RespError :: "string \<Rightarrow> RespError"
  Unmarshal_resBody :: "string \<Rightarrow> error option"

text \<open>The request with its headers; \<^verbatim>\<open>Content-Type\<close> is set for a non-empty body only.\<close>

definition json_request :: "Credentials \<Rightarrow> string \<Rightarrow> string \<Rightarrow> string option \<Rightarrow> Request" where
  "json_request cli method httpURL body =
     (let logBody = (case body of None \<Rightarrow> [] | Some jsonStr \<Rightarrow> jsonStr);
          h = (if length logBody > 0 then [''Content-Type'' \<mapsto> ''application/json'']
               else Map.empty)
      in \<lparr>Method = method, URL = httpURL, Timeout = None,
          Header = h(''User-Agent'' \<mapsto> UserAgent cli,
                     ''Authorization'' \<mapsto> ''Bearer '' @ AccessToken cli),
          Body = body\<rparr>)"

text \<open>
  \<^verbatim>\<open>MakeRequest\<close>. \<open>reqBody\<close> is \<open>None\<close> for a nil request body, and otherwise the
  result of \<^verbatim>\<open>json.Marshal(reqBody)\<close>; \<open>resBody\<close> tells whether a response body is asked
  for. The results are the bytes (\<open>None\<close> for nil) and the error. The call of
  \<^verbatim>\<open>LogRequest\<close> only writes to the logger and is left out.
\<close>

definition MakeRequest ::
  "request_env \<Rightarrow> Credentials \<Rightarrow> string \<Rightarrow> string \<Rightarrow> (error + string) option \<Rightarrow> bool
   \<Rightarrow> string option \<times> error option" where
  "MakeRequest env cli method httpURL reqBody resBody =
     (case (case reqBody of
              None \<Rightarrow> Inr None
            | Some (Inl e) \<Rightarrow> Inl e
            | Some (Inr jsonStr) \<Rightarrow> Inr (Some jsonStr)) of
        Inl e \<Rightarrow> (None, Some e)
      | Inr body \<Rightarrow>
          (case NewRequest env method httpURL of
             Inl e \<Rightarrow> (None, Some e)
           | Inr path \<Rightarrow>
               (case ClientDo env (json_request cli method httpURL body) of
                  Inl e \<Rightarrow> (None, Some e)
                | Inr res \<Rightarrow>
                    (let contents = RespBody res
                     in if quot (StatusCode res) 100 \<noteq> 2 then
                          (let respErr = Unmarshal_RespError env contents;
                               wrap = (if ErrCode respErr \<noteq> [] then Some (RespErrorE respErr)
                                       else None);
                               respErr' = (if ErrCode respErr \<noteq> [] then Some respErr
                                           else None);
                               msg = ''Failed to '' @ method @ '' JSON to '' @ path;
                               msg' = (if wrap = None then msg @ '': '' @ contents else msg)
                           in (Some contents,
                               Some (HTTPError wrap respErr' msg' (StatusCode res))))
                        else
                          (case ReadErr res of
                             Some e \<Rightarrow> (None, Some e)
                           | None \<Rightarrow>
                               if resBody then
                                 (case Unmarshal_resBody env contents of
                                    Some e \<Rightarrow> (None, Some e)
                                  | None \<Rightarrow> (Some contents, None))
                               else (Some contents, None))))))"

section \<open>Example inputs\<close>

definition ex_store :: Storer where
  "ex_store = \<lparr>next_batch = [''@alice:hs'' \<mapsto> ''s1''], filter_id = [''@alice:hs'' \<mapsto> ''f1'']\<rparr>"

definition ex_cli :: Client where
  "ex_cli = \<lparr>UserID = ''@alice:hs'', SyncPresence = ''online'', Store = ex_store,
             syncingID = 1, calls = []\<rparr>"

definition ex_fresh :: Client where
  "ex_fresh = \<lparr>UserID = ''@alice:hs'', SyncPresence = ''online'',
               Store = \<lparr>next_batch = Map.empty, filter_id = Map.empty\<rparr>,
               syncingID = 0, calls = []\<rparr>"

definition ex_cycle :: cycle where
  "ex_cycle = \<lparr>c_syncingID = 1, c_nextBatch = ''s1'', c_filterID = ''f1''\<rparr>"

definition ex_resp :: "string \<Rightarrow> RespSync" where
  "ex_resp t = \<lparr>NextBatch = t, Payload = ''{}''\<rparr>"

definition ex_ok :: "nat \<Rightarrow> string \<Rightarrow> error option \<Rightarrow> sync_step" where
  "ex_ok n t pe = \<lparr>others = n, resSync = Some (ex_resp t), err = None, failed = (0, None),
                   processed = pe\<rparr>"

definition ex_fail :: "nat \<Rightarrow> int \<times> error option \<Rightarrow> sync_step" where
  "ex_fail n h = \<lparr>others = n, resSync = None, err = Some (ErrorString ''timeout''),
                 failed = h, processed = None\<rparr>"

definition ex_bad :: sync_step where
  "ex_bad = ex_ok 0 ''s2'' (Some (ErrorString ''bad event''))"

definition ex_stale :: Client where
  "ex_stale = ex_cli\<lparr>syncingID := 3\<rparr>"

definition ex_after_bad :: Client where
  "ex_after_bad = snd (Sync_loop ex_cycle [ex_bad] ex_cli)"

definition ex_evt :: "string Event" where
  "ex_evt = \<lparr>evt_ID = ''$e1'', evt_RoomID = ''!room:hs'', evt_Type = ''m.room.message'',
             evt_MsgType = ''m.text''\<rparr>"

definition ex_as :: "bool \<Rightarrow> string \<Rightarrow> AppService" where
  "ex_as ws endpoint =
     \<lparr>HasWebsocket = ws, MessageSendCheckpointEndpoint = endpoint, AppToken = ''as_token''\<rparr>"

text \<open>
  An environment whose \<^verbatim>\<open>http.NewRequestWithContext\<close> refuses a URL that starts with a
  colon, as \<^verbatim>\<open>url.Parse\<close> does (missing protocol scheme), and whose server answers
  with the given status.
\<close>

definition ex_env :: "int \<Rightarrow> string dispatch_env" where
  "ex_env status =
     \<lparr>SendWebsocket = (\<lambda>req. Some (ErrorString ''websocket closed'')),
      json_Encode = (\<lambda>j. Inr ''{}''),
      NewRequestWithContext =
        (\<lambda>method url. if take 1 url = '':'' then Some (ErrorString ''missing protocol scheme'')
                       else None),
      Do = (\<lambda>req. Inr \<lparr>StatusCode = status, RespBody = ''Bad Gateway'', ReadErr = None\<rparr>),
      DefaultUserAgent = ''mautrix-go''\<rparr>"

definition ex_creds :: Credentials where
  "ex_creds = \<lparr>UserAgent = ''mautrix-go v0.1.0'', AccessToken = ''token''\<rparr>"

text \<open>
  A server that answers every request with status 502 and the given body; the body
  \<open>M_FORBIDDEN\<close> stands for one that decodes into a \<^verbatim>\<open>RespError\<close> with this code.
\<close>

definition ex_renv :: "string \<Rightarrow> request_env" where
  "ex_renv body =
     \<lparr>NewRequest = (\<lambda>method url. Inr ''/_matrix/client/r0/sync''),
      ClientDo = (\<lambda>req. Inr \<lparr>StatusCode = 502, RespBody = body, ReadErr = None\<rparr>),
      Unmarshal_RespError =
        (\<lambda>contents. if contents = ''M_FORBIDDEN'' then \<lparr>ErrCode = ''M_FORBIDDEN'', Err = []\<rparr>
                     else \<lparr>ErrCode = [], Err = []\<rparr>),
      Unmarshal_resBody = (\<lambda>contents. None)\<rparr>"

section \<open>Lemmas about the sync loop\<close>

lemmas ex_defs = ex_store_def ex_cli_def ex_fresh_def ex_cycle_def ex_resp_def ex_ok_def ex_fail_def

lemmas eval_defs = ex_bad_def ex_stale_def ex_after_bad_def ex_defs Sync_body_def called_def Let_def getSyncingID_def SaveNextBatch_def
  LoadFilterID_def LoadNextBatch_def SaveFilterID_def enters_loop_def request_def since_calls_def
  Sync_def incrementSyncingID_def StopSync_def

lemma since_calls_append [simp]:
  "calls cli' = calls cli @ es \<Longrightarrow> since_calls cli cli' = es"
  by (simp add: since_calls_def)

lemma Sync_body_failed:
  "err s = Some e \<Longrightarrow>
   Sync_body c s cli =
     (case snd (failed s) of
        Some err2 \<Rightarrow>
          (Exit (Returned (Some err2)),
           cli\<lparr>syncingID := syncingID cli + of_nat (others s),
               calls := calls cli @ [request c cli, COnFailedSync (resSync s) e]\<rparr>)
      | None \<Rightarrow>
          (Continue c,
           cli\<lparr>syncingID := syncingID cli + of_nat (others s),
               calls := calls cli @ [request c cli, COnFailedSync (resSync s) e,
                                     CSleep (fst (failed s))]\<rparr>))"
  by (simp add: Sync_body_def called_def Let_def split: option.splits)

lemma Sync_body_superseded:
  "err s = None \<Longrightarrow> syncingID cli + of_nat (others s) \<noteq> c_syncingID c \<Longrightarrow>
   Sync_body c s cli =
     (Exit (Returned None),
      cli\<lparr>syncingID := syncingID cli + of_nat (others s),
          calls := calls cli @ [request c cli]\<rparr>)"
  by (simp add: Sync_body_def called_def Let_def getSyncingID_def)

lemma Sync_body_live:
  "err s = None \<Longrightarrow> syncingID cli + of_nat (others s) = c_syncingID c \<Longrightarrow>
   resSync s = Some r \<Longrightarrow>
   Sync_body c s cli =
     (case processed s of
        Some e \<Rightarrow> Exit (Returned (Some e))
      | None \<Rightarrow> Continue (c\<lparr>c_nextBatch := NextBatch r\<rparr>),
      cli\<lparr>syncingID := syncingID cli + of_nat (others s),
          Store := SaveNextBatch (Store cli) (UserID cli) (NextBatch r),
          calls := calls cli @ [request c cli, CSaveNextBatch (UserID cli) (NextBatch r),
                                CProcessResponse r (c_nextBatch c)]\<rparr>)"
  by (simp add: Sync_body_def called_def Let_def getSyncingID_def split: option.splits)

lemma Sync_body_nil:
  "err s = None \<Longrightarrow> syncingID cli + of_nat (others s) = c_syncingID c \<Longrightarrow>
   resSync s = None \<Longrightarrow>
   Sync_body c s cli =
     (Exit Panicked,
      cli\<lparr>syncingID := syncingID cli + of_nat (others s),
          calls := calls cli @ [request c cli]\<rparr>)"
  by (simp add: Sync_body_def called_def Let_def getSyncingID_def)

lemma Sync_body_calls:
  "\<exists>es. calls (snd (Sync_body c s cli)) = calls cli @ request c cli # es"
  by (simp add: Sync_body_def called_def Let_def split: option.splits)

lemma Sync_body_UserID [simp]: "UserID (snd (Sync_body c s cli)) = UserID cli"
  by (simp add: Sync_body_def called_def Let_def split: option.splits)

lemma Sync_body_SyncPresence [simp]:
  "SyncPresence (snd (Sync_body c s cli)) = SyncPresence cli"
  by (simp add: Sync_body_def called_def Let_def split: option.splits)

lemma Sync_loop_calls:
  "\<exists>es. calls (snd (Sync_loop c ss cli)) = calls cli @ request c cli # es"
proof (induction ss arbitrary: c cli)
  case Nil
  show ?case by (simp add: called_def)
next
  case (Cons s ss)
  obtain it cli' where b: "Sync_body c s cli = (it, cli')" by (cases "Sync_body c s cli")
  obtain es where es: "calls cli' = calls cli @ request c cli # es"
    using Sync_body_calls[of c s cli] b by auto
  show ?case
  proof (cases it)
    case (Exit out)
    with b es show ?thesis by simp
  next
    case (Continue c')
    obtain es' where "calls (snd (Sync_loop c' ss cli')) = calls cli' @ request c' cli' # es'"
      using Cons.IH by blast
    with b es Continue show ?thesis by simp
  qed
qed

lemma Sync_loop_UserID [simp]: "UserID (snd (Sync_loop c ss cli)) = UserID cli"
proof (induction ss arbitrary: c cli)
  case Nil
  show ?case by (simp add: called_def)
next
  case (Cons s ss)
  obtain it cli' where b: "Sync_body c s cli = (it, cli')" by (cases "Sync_body c s cli")
  have "UserID cli' = UserID cli" using Sync_body_UserID[of c s cli] b by simp
  with b Cons.IH show ?case by (cases it) simp_all
qed

lemma fetch_tokens_append [simp]:
  "fetch_tokens (xs @ ys) = fetch_tokens xs @ fetch_tokens ys"
  by (induction xs rule: fetch_tokens.induct) simp_all

lemma saved_tokens_append [simp]:
  "saved_tokens (xs @ ys) = saved_tokens xs @ saved_tokens ys"
  by (induction xs rule: saved_tokens.induct) simp_all

lemma processed_payloads_append [simp]:
  "processed_payloads (xs @ ys) = processed_payloads xs @ processed_payloads ys"
  by (induction xs rule: processed_payloads.induct) simp_all

lemma fetch_tokens_request [simp]:
  "fetch_tokens (request c cli # es) = c_nextBatch c # fetch_tokens es"
  by (simp add: request_def)

lemma saved_tokens_applied:
  "saved_tokens (applied u p f t rs) = map (\<lambda>r. (u, NextBatch r)) rs"
  by (induction rs arbitrary: t) simp_all

lemma processed_payloads_applied:
  "processed_payloads (applied u p f t rs) = zip rs (t # map NextBatch rs)"
  by (induction rs arbitrary: t) simp_all

lemma fetch_tokens_applied:
  "fetch_tokens (applied u p f t rs) = take (length rs) (t # map NextBatch rs)"
  by (induction rs arbitrary: t) simp_all

lemma Sync_cached:
  "LoadFilterID (Store cli) (UserID cli) \<noteq> [] \<Longrightarrow>
   Sync fj cf ss cli =
     Sync_loop \<lparr>c_syncingID = syncingID cli + 1,
                c_nextBatch = LoadNextBatch (Store cli) (UserID cli),
                c_filterID = LoadFilterID (Store cli) (UserID cli)\<rparr> ss
       (cli\<lparr>syncingID := syncingID cli + 1,
            calls := calls cli @ [CLoadNextBatch (UserID cli), CLoadFilterID (UserID cli)]\<rparr>)"
  by (simp add: Sync_def incrementSyncingID_def called_def Let_def)

lemma Sync_create_failed:
  "LoadFilterID (Store cli) (UserID cli) = [] \<Longrightarrow> snd cf = Some e \<Longrightarrow>
   Sync fj cf ss cli =
     (Returned (Some e),
      cli\<lparr>syncingID := syncingID cli + 1,
          calls := calls cli @ [CLoadNextBatch (UserID cli), CLoadFilterID (UserID cli),
                                CGetFilterJSON (UserID cli), CCreateFilter fj]\<rparr>)"
  by (simp add: Sync_def incrementSyncingID_def called_def Let_def)

lemma Sync_create_nil:
  "LoadFilterID (Store cli) (UserID cli) = [] \<Longrightarrow> cf = (None, None) \<Longrightarrow>
   Sync fj cf ss cli =
     (Panicked,
      cli\<lparr>syncingID := syncingID cli + 1,
          calls := calls cli @ [CLoadNextBatch (UserID cli), CLoadFilterID (UserID cli),
                                CGetFilterJSON (UserID cli), CCreateFilter fj]\<rparr>)"
  by (simp add: Sync_def incrementSyncingID_def called_def Let_def)

lemma Sync_created:
  "LoadFilterID (Store cli) (UserID cli) = [] \<Longrightarrow> cf = (Some rf, None) \<Longrightarrow>
   Sync fj cf ss cli =
     Sync_loop \<lparr>c_syncingID = syncingID cli + 1,
                c_nextBatch = LoadNextBatch (Store cli) (UserID cli),
                c_filterID = FilterID rf\<rparr> ss
       (cli\<lparr>syncingID := syncingID cli + 1,
            Store := SaveFilterID (Store cli) (UserID cli) (FilterID rf),
            calls := calls cli @ [CLoadNextBatch (UserID cli), CLoadFilterID (UserID cli),
                                  CGetFilterJSON (UserID cli), CCreateFilter fj,
                                  CSaveFilterID (UserID cli) (FilterID rf)]\<rparr>)"
  by (simp add: Sync_def incrementSyncingID_def called_def Let_def)

lemma Sync_first_fetch:
  "take 1 (fetch_tokens (since_calls cli (snd (Sync fj cf ss cli)))) =
     (if enters_loop cf cli then [LoadNextBatch (Store cli) (UserID cli)] else [])"
proof (cases "LoadFilterID (Store cli) (UserID cli) = []")
  case False
  let ?c = "\<lparr>c_syncingID = syncingID cli + 1,
                c_nextBatch = LoadNextBatch (Store cli) (UserID cli),
                c_filterID = LoadFilterID (Store cli) (UserID cli)\<rparr>"
  let ?cli = "cli\<lparr>syncingID := syncingID cli + 1,
            calls := calls cli @ [CLoadNextBatch (UserID cli), CLoadFilterID (UserID cli)]\<rparr>"
  obtain es where "calls (snd (Sync_loop ?c ss ?cli)) = calls ?cli @ request ?c ?cli # es"
    using Sync_loop_calls by blast
  then have "since_calls cli (snd (Sync fj cf ss cli)) =
      [CLoadNextBatch (UserID cli), CLoadFilterID (UserID cli)] @ request ?c ?cli # es"
    using False by (simp add: Sync_cached)
  then show ?thesis using False by (simp add: enters_loop_def)
next
  case True
  show ?thesis
  proof (cases cf)
    case (Pair rf e)
    show ?thesis
    proof (cases e)
      case (Some e')
      then show ?thesis using True Pair
        by (simp add: Sync_create_failed enters_loop_def)
    next
      case None
      show ?thesis
      proof (cases rf)
        case None': None
        show ?thesis using True Pair None None'
          by (simp add: Sync_create_nil enters_loop_def)
      next
        case (Some r)
        let ?c = "\<lparr>c_syncingID = syncingID cli + 1,
                c_nextBatch = LoadNextBatch (Store cli) (UserID cli),
                c_filterID = FilterID r\<rparr>"
        let ?cli = "cli\<lparr>syncingID := syncingID cli + 1,
            Store := SaveFilterID (Store cli) (UserID cli) (FilterID r),
            calls := calls cli @ [CLoadNextBatch (UserID cli), CLoadFilterID (UserID cli),
                                  CGetFilterJSON (UserID cli), CCreateFilter fj,
                                  CSaveFilterID (UserID cli) (FilterID r)]\<rparr>"
        obtain es where "calls (snd (Sync_loop ?c ss ?cli)) = calls ?cli @ request ?c ?cli # es"
          using Sync_loop_calls by blast
        then have "since_calls cli (snd (Sync fj cf ss cli)) =
           [CLoadNextBatch (UserID cli), CLoadFilterID (UserID cli),
                                  CGetFilterJSON (UserID cli), CCreateFilter fj,
                                  CSaveFilterID (UserID cli) (FilterID r)] @ request ?c ?cli # es"
          using True Pair None Some by (simp add: Sync_created)
        then show ?thesis using True Pair None Some by (simp add: enters_loop_def)
      qed
    qed
  qed
qed

lemma LoadNextBatch_Save [simp]:
  "LoadNextBatch (SaveNextBatch st u t) u = t"
  by (simp add: LoadNextBatch_def SaveNextBatch_def)

lemma LoadFilterID_SaveNextBatch [simp]:
  "LoadFilterID (SaveNextBatch st u t) v = LoadFilterID st v"
  by (simp add: LoadFilterID_def SaveNextBatch_def)

lemma last_tokens: "last (t # map NextBatch (r # rs)) = last (NextBatch r # map NextBatch rs)"
  by simp

lemma Sync_loop_applied:
  assumes "list_all2 (\<lambda>s r. err s = None \<and> others s = 0 \<and> resSync s = Some r) ss rs"
    and "\<forall>s\<in>set (butlast ss). processed s = None"
    and "syncingID cli = c_syncingID c"
  shows "calls (snd (Sync_loop c ss cli)) =
           calls cli @ applied (UserID cli) (SyncPresence cli) (c_filterID c) (c_nextBatch c) rs
           @ (if ss = [] \<or> processed (last ss) = None
              then [CSyncRequest 30000 (last (c_nextBatch c # map NextBatch rs)) (c_filterID c)
                      False (SyncPresence cli)]
              else [])"
  using assms
proof (induction ss arbitrary: c cli rs)
  case Nil
  then show ?case by (simp add: called_def request_def)
next
  case (Cons s ss)
  from Cons.prems(1) obtain r rs' where rs: "rs = r # rs'"
    and s: "err s = None" "others s = 0" "resSync s = Some r"
    and rest: "list_all2 (\<lambda>s r. err s = None \<and> others s = 0 \<and> resSync s = Some r) ss rs'"
    by (auto simp: list_all2_Cons1)
  have live: "syncingID cli + of_nat (others s) = c_syncingID c"
    using s Cons.prems(3) by simp
  note b = Sync_body_live[OF s(1) live s(3)]
  show ?case
  proof (cases "processed s")
    case (Some e)
    then have "ss = []" using Cons.prems(2) by (cases ss) auto
    then have "rs' = []" using rest by simp
    then show ?thesis using Some rs \<open>ss = []\<close> by (simp add: b request_def)
  next
    case None
    let ?c = "c\<lparr>c_nextBatch := NextBatch r\<rparr>"
    let ?cli = "cli\<lparr>syncingID := syncingID cli + of_nat (others s),
          Store := SaveNextBatch (Store cli) (UserID cli) (NextBatch r),
          calls := calls cli @ [request c cli, CSaveNextBatch (UserID cli) (NextBatch r),
                                CProcessResponse r (c_nextBatch c)]\<rparr>"
    have p: "\<forall>s\<in>set (butlast ss). processed s = None"
      using Cons.prems(2) by (cases ss) auto
    have g: "syncingID ?cli = c_syncingID ?c" using live by simp
    have step: "Sync_loop c (s # ss) cli = Sync_loop ?c ss ?cli"
      using None by (simp add: b)
    have fin: "(s # ss = [] \<or> processed (last (s # ss)) = None) = (ss = [] \<or> processed (last ss) = None)"
      using None by simp
    show ?thesis
      unfolding step Cons.IH[OF rest p g] rs fin last_tokens
      by (simp add: request_def)
  qed
qed

lemma Sync_body_no_create:
  "filter is_create (calls (snd (Sync_body c s cli))) = filter is_create (calls cli)"
  by (simp add: Sync_body_def called_def Let_def request_def split: option.splits)

lemma Sync_loop_no_create:
  "filter is_create (calls (snd (Sync_loop c ss cli))) = filter is_create (calls cli)"
proof (induction ss arbitrary: c cli)
  case Nil
  show ?case by (simp add: called_def request_def)
next
  case (Cons s ss)
  obtain it cli' where b: "Sync_body c s cli = (it, cli')" by (cases "Sync_body c s cli")
  have "filter is_create (calls cli') = filter is_create (calls cli)"
    using Sync_body_no_create[of c s cli] b by simp
  with b Cons.IH show ?case by (cases it) simp_all
qed

lemma Sync_loop_since_no_create:
  assumes "calls cli = calls cli0 @ pre"
  shows "filter is_create (since_calls cli0 (snd (Sync_loop c ss cli))) = filter is_create pre"
proof -
  obtain es where es: "calls (snd (Sync_loop c ss cli)) = calls cli @ request c cli # es"
    using Sync_loop_calls by blast
  have "filter is_create (calls cli @ request c cli # es) = filter is_create (calls cli)"
    using Sync_loop_no_create[of c ss cli] es by simp
  then have "filter is_create (request c cli # es) = []" by simp
  moreover have "since_calls cli0 (snd (Sync_loop c ss cli)) = pre @ request c cli # es"
    using es assms by simp
  ultimately show ?thesis by simp
qed

lemma Sync_loads_first:
  "take 2 (since_calls cli (snd (Sync fj cf ss cli))) =
     [CLoadNextBatch (UserID cli), CLoadFilterID (UserID cli)]"
proof -
  have loop: "take 2 (since_calls cli (snd (Sync_loop c ss cli'))) =
     [CLoadNextBatch (UserID cli), CLoadFilterID (UserID cli)]"
    if "calls cli' = calls cli @ CLoadNextBatch (UserID cli) # CLoadFilterID (UserID cli) # pre"
    for c cli' pre
  proof -
    obtain es where "calls (snd (Sync_loop c ss cli')) = calls cli' @ request c cli' # es"
      using Sync_loop_calls by blast
    then have "since_calls cli (snd (Sync_loop c ss cli')) =
       CLoadNextBatch (UserID cli) # CLoadFilterID (UserID cli) # pre @ request c cli' # es"
      using that by simp
    then show ?thesis by simp
  qed
  show ?thesis
  proof (cases "LoadFilterID (Store cli) (UserID cli) = []")
    case False
    then show ?thesis by (simp add: Sync_cached loop)
  next
    case True
    obtain rf e where cf: "cf = (rf, e)" by (cases cf)
    show ?thesis
    proof (cases e)
      case (Some e')
      then show ?thesis using True cf by (simp add: Sync_create_failed)
    next
      case None
      show ?thesis
      proof (cases rf)
        case None': None
        show ?thesis using True cf None None' by (simp add: Sync_create_nil)
      next
        case (Some r)
        show ?thesis using True cf None Some by (simp add: Sync_created loop)
      qed
    qed
  qed
qed

lemma Sync_creates_iff_empty:
  "filter is_create (since_calls cli (snd (Sync fj cf ss cli))) =
     (if LoadFilterID (Store cli) (UserID cli) = [] then [CCreateFilter fj] else [])"
proof (cases "LoadFilterID (Store cli) (UserID cli) = []")
  case False
  then show ?thesis by (simp add: Sync_cached Sync_loop_since_no_create)
next
  case True
  obtain rf e where cf: "cf = (rf, e)" by (cases cf)
  show ?thesis
  proof (cases e)
    case (Some e')
    then show ?thesis using True cf by (simp add: Sync_create_failed)
  next
    case None
    show ?thesis
    proof (cases rf)
      case None': None
      show ?thesis using True cf None None' by (simp add: Sync_create_nil)
    next
      case (Some r)
      show ?thesis using True cf None Some by (simp add: Sync_created Sync_loop_since_no_create)
    qed
  qed
qed

lemma Sync_loop_failures:
  assumes "\<forall>f\<in>set fs. err f \<noteq> None \<and> snd (failed f) = None"
  shows "Sync_loop c (fs @ ss) cli =
           Sync_loop c ss
             (cli\<lparr>syncingID := syncingID cli + of_nat (sum_list (map others fs)),
                  calls := calls cli @
                    concat (map (\<lambda>f. [request c cli, COnFailedSync (resSync f) (the (err f)),
                                      CSleep (fst (failed f))]) fs)\<rparr>)"
  using assms
proof (induction fs arbitrary: cli)
  case Nil
  show ?case by simp
next
  case (Cons f fs)
  from Cons.prems obtain e where e: "err f = Some e" and h: "snd (failed f) = None" by auto
  have r: "request c (cli\<lparr>syncingID := x, calls := y\<rparr>) = request c cli" for x y
    by (simp add: request_def)
  have fs: "\<forall>f\<in>set fs. err f \<noteq> None \<and> snd (failed f) = None" using Cons.prems by simp
  show ?case
    using e h by (simp add: Sync_body_failed Cons.IH[OF fs] r add.assoc)
qed

lemma Sync_loop_projections:
  assumes "\<forall>s\<in>set ss. others s = 0 \<and> (fetch_ok s \<or> fetch_retried s)"
    and "\<forall>s\<in>set (butlast ss). processed s = None"
    and "syncingID cli = c_syncingID c"
  shows "saved_tokens (calls (snd (Sync_loop c ss cli))) =
           saved_tokens (calls cli) @ map (\<lambda>r. (UserID cli, NextBatch r)) (payloads ss)
       \<and> processed_payloads (calls (snd (Sync_loop c ss cli))) =
           processed_payloads (calls cli)
           @ zip (payloads ss) (c_nextBatch c # map NextBatch (payloads ss))"
  using assms
proof (induction ss arbitrary: c cli)
  case Nil
  then show ?case by (simp add: called_def request_def)
next
  case (Cons s ss)
  have o: "others s = 0" and k: "fetch_ok s \<or> fetch_retried s" using Cons.prems(1) by auto
  have rest: "\<forall>s\<in>set ss. others s = 0 \<and> (fetch_ok s \<or> fetch_retried s)"
    using Cons.prems(1) by simp
  have p: "\<forall>s\<in>set (butlast ss). processed s = None"
    using Cons.prems(2) by (cases ss) auto
  show ?case
  proof (cases "err s")
    case (Some e)
    then have h: "snd (failed s) = None" using k by (auto simp: fetch_ok_def fetch_retried_def)
    let ?cli = "cli\<lparr>syncingID := syncingID cli + of_nat (others s),
               calls := calls cli @ [request c cli, COnFailedSync (resSync s) e,
                                     CSleep (fst (failed s))]\<rparr>"
    have step: "Sync_loop c (s # ss) cli = Sync_loop c ss ?cli"
      using h by (simp add: Sync_body_failed[OF Some])
    have g: "syncingID ?cli = c_syncingID c" using o Cons.prems(3) by simp
    show ?thesis
      unfolding step using Cons.IH[OF rest p g] Some by (simp add: request_def)
  next
    case None
    then obtain r where r: "resSync s = Some r" using k by (auto simp: fetch_ok_def fetch_retried_def)
    have live: "syncingID cli + of_nat (others s) = c_syncingID c"
      using o Cons.prems(3) by simp
    note b = Sync_body_live[OF None live r]
    show ?thesis
    proof (cases "processed s")
      case (Some e)
      then have "ss = []" using Cons.prems(2) by (cases ss) auto
      then show ?thesis using Some None r by (simp add: b request_def)
    next
      case None': None
      let ?c = "c\<lparr>c_nextBatch := NextBatch r\<rparr>"
      let ?cli = "cli\<lparr>syncingID := syncingID cli + of_nat (others s),
          Store := SaveNextBatch (Store cli) (UserID cli) (NextBatch r),
          calls := calls cli @ [request c cli, CSaveNextBatch (UserID cli) (NextBatch r),
                                CProcessResponse r (c_nextBatch c)]\<rparr>"
      have step: "Sync_loop c (s # ss) cli = Sync_loop ?c ss ?cli"
        using None' by (simp add: b)
      have g: "syncingID ?cli = c_syncingID ?c" using live by simp
      show ?thesis
        unfolding step using Cons.IH[OF rest p g] None r by (simp add: request_def)
    qed
  qed
qed

lemma all_ok_payloads:
  "\<forall>s\<in>set ss. others s = 0 \<and> fetch_ok s \<Longrightarrow>
   list_all2 (\<lambda>s r. err s = None \<and> others s = 0 \<and> resSync s = Some r) ss (payloads ss)"
  by (induction ss) (auto simp: fetch_ok_def)

section \<open>Lemmas about checkpoints and requests\<close>

lemmas checkpoint_defs = NewMessageSendCheckpoint_def SendMessageSendCheckpoint_def
  SendErrorMessageSendCheckpoint_def Let_def

lemma quot_2xx: "quot x 100 = 2 \<longleftrightarrow> 200 \<le> x \<and> x \<le> 299"
  by (auto simp: quot_def sgn_if abs_if split: if_splits)

lemma sublist_in_message: "sublist b (p @ (q @ b) @ r)"
  by (metis append.assoc sublist_appendI)

lemma NewMessageSendCheckpoint_fields:
  "Status (NewMessageSendCheckpoint EventMessage now evt step status) = status"
  "Info (NewMessageSendCheckpoint EventMessage now evt step status) = []"
  "ReportedBy (NewMessageSendCheckpoint EventMessage now evt step status) = ReportedByBridge"
  "RetryNum (NewMessageSendCheckpoint EventMessage now evt step status) = 0"
  by (simp_all add: NewMessageSendCheckpoint_def Let_def)

section \<open>Claims about the sync loop\<close>

text \<open>
  Claim C1. In an iteration whose fetch succeeds (no error, a payload \<open>r\<close>) and whose
  generation check passes, the calls of the iteration are, in this order: the request,
  \<^verbatim>\<open>SaveNextBatch\<close> with the token of \<open>r\<close>, \<^verbatim>\<open>ProcessResponse\<close> with \<open>r\<close> and the
  previous token; after the iteration the store holds the new token. If
  \<^verbatim>\<open>ProcessResponse\<close> fails with \<open>e\<close>, \<^verbatim>\<open>Sync\<close> returns \<open>e\<close> with the new token
  already stored, and a \<^verbatim>\<open>Sync\<close> started again on that state sends its first request
  with the new token (whenever it gets as far as its loop).
\<close>

theorem token_saved_before_processing:
  assumes "err s = None" and "resSync s = Some r"
    and "syncingID cli + of_nat (others s) = c_syncingID c"
  shows "since_calls cli (snd (Sync_body c s cli)) =
           [request c cli, CSaveNextBatch (UserID cli) (NextBatch r),
            CProcessResponse r (c_nextBatch c)]
       \<and> LoadNextBatch (Store (snd (Sync_body c s cli))) (UserID cli) = NextBatch r
       \<and> (processed s = Some e \<longrightarrow>
            Sync_loop c (s # ss) cli = (Returned (Some e), snd (Sync_body c s cli))
          \<and> take 1 (fetch_tokens (since_calls (snd (Sync_loop c (s # ss) cli))
                      (snd (Sync fj cf ss' (snd (Sync_loop c (s # ss) cli)))))) =
              (if enters_loop cf (snd (Sync_loop c (s # ss) cli)) then [NextBatch r] else []))"
proof -
  note b = Sync_body_live[OF assms(1) assms(3) assms(2)]
  have 1: "since_calls cli (snd (Sync_body c s cli)) =
           [request c cli, CSaveNextBatch (UserID cli) (NextBatch r),
            CProcessResponse r (c_nextBatch c)]"
    by (simp add: b)
  have 2: "LoadNextBatch (Store (snd (Sync_body c s cli))) (UserID cli) = NextBatch r"
    by (simp add: b)
  have 3: "Sync_loop c (s # ss) cli = (Returned (Some e), snd (Sync_body c s cli))"
    if "processed s = Some e"
    using that by (simp add: b)
  have 4: "take 1 (fetch_tokens (since_calls (snd (Sync_loop c (s # ss) cli))
                      (snd (Sync fj cf ss' (snd (Sync_loop c (s # ss) cli)))))) =
              (if enters_loop cf (snd (Sync_loop c (s # ss) cli)) then [NextBatch r] else [])"
    if "processed s = Some e"
    unfolding Sync_first_fetch using 3[OF that] 2 by simp
  from 1 2 3 4 show ?thesis by blast
qed

theorem token_saved_before_processing_witness:
  "err ex_bad = None \<and> resSync ex_bad = Some (ex_resp ''s2'')
   \<and> syncingID ex_cli + of_nat (others ex_bad) = c_syncingID ex_cycle
   \<and> processed ex_bad = Some (ErrorString ''bad event'')
   \<and> since_calls ex_cli (snd (Sync_body ex_cycle ex_bad ex_cli)) =
       [CSyncRequest 30000 ''s1'' ''f1'' False ''online'', CSaveNextBatch ''@alice:hs'' ''s2'',
        CProcessResponse (ex_resp ''s2'') ''s1'']
   \<and> fst (Sync_loop ex_cycle [ex_bad] ex_cli) = Returned (Some (ErrorString ''bad event''))
   \<and> LoadNextBatch (Store ex_after_bad) ''@alice:hs'' = ''s2''
   \<and> take 1 (fetch_tokens (since_calls ex_after_bad
               (snd (Sync [] (None, None) [] ex_after_bad)))) = [''s2'']"
  using token_saved_before_processing[of ex_bad "ex_resp ''s2''" ex_cli ex_cycle
      "ErrorString ''bad event''" "[]" "[]" "(None, None)" "[]"]
  by (simp add: eval_defs)

text \<open>
  Claim C2, amended. \<^verbatim>\<open>StopSync\<close> changes nothing but the generation counter, which
  it increments. A cycle whose captured generation differs from the current one, when a
  fetch of it returns without error, exits with a nil error: the store is unchanged and
  the only call of the iteration is the request. After \<^verbatim>\<open>StopSync\<close> and the increment
  at the start of the next \<^verbatim>\<open>Sync\<close>, the new cycle's captured generation is the
  current one and the prior cycle's is not.

  As stated, for every way the fetch returns, the claim fails: when the fetch of a
  superseded cycle returns an error, the cycle calls \<^verbatim>\<open>OnFailedSync\<close>, sleeps and
  sends the request again.
\<close>

theorem superseded_cycle_exits_after_successful_fetch:
  "StopSync cli = cli\<lparr>syncingID := syncingID cli + 1\<rparr>
   \<and> (err s = None \<and> syncingID cli + of_nat (others s) \<noteq> c_syncingID c \<longrightarrow>
        fst (Sync_loop c (s # ss) cli) = Returned None
      \<and> Store (snd (Sync_loop c (s # ss) cli)) = Store cli
      \<and> since_calls cli (snd (Sync_loop c (s # ss) cli)) = [request c cli])
   \<and> (c_syncingID c = getSyncingID cli \<longrightarrow>
        fst (incrementSyncingID (StopSync cli)) = getSyncingID (snd (incrementSyncingID (StopSync cli)))
      \<and> c_syncingID c \<noteq> getSyncingID (snd (incrementSyncingID (StopSync cli))))"
  by (simp add: StopSync_def incrementSyncingID_def getSyncingID_def Let_def
      Sync_body_superseded)

theorem superseded_cycle_exits_after_successful_fetch_witness:
  "err (ex_ok 2 ''s2'' None) = None
   \<and> syncingID ex_cli + of_nat (others (ex_ok 2 ''s2'' None)) \<noteq> c_syncingID ex_cycle
   \<and> c_syncingID ex_cycle = getSyncingID ex_cli
   \<and> Sync_loop ex_cycle [ex_ok 2 ''s2'' None] ex_cli =
       (Returned None,
        ex_cli\<lparr>syncingID := 3, calls := [CSyncRequest 30000 ''s1'' ''f1'' False ''online'']\<rparr>)
   \<and> fst (incrementSyncingID (StopSync ex_cli)) = 3
   \<and> getSyncingID (snd (incrementSyncingID (StopSync ex_cli))) = 3"
  using superseded_cycle_exits_after_successful_fetch[of ex_cli "ex_ok 2 ''s2'' None" ex_cycle "[]"]
  by (simp add: eval_defs)

text \<open>
  The counterexample to claim C2 as stated: the cycle captured generation 1, the
  current generation is 3, the fetch returns an error and the handler a backoff of two
  seconds. The cycle does not exit: it has called the handler, slept and sent its
  request again.
\<close>

theorem superseded_cycle_failed_fetch_counterexample:
  "getSyncingID ex_stale \<noteq> c_syncingID ex_cycle
   \<and> Sync_loop ex_cycle [ex_fail 0 (2000000000, None)] ex_stale =
       (Blocked,
        ex_stale\<lparr>calls := [CSyncRequest 30000 ''s1'' ''f1'' False ''online'',
                            COnFailedSync None (ErrorString ''timeout''), CSleep 2000000000,
                            CSyncRequest 30000 ''s1'' ''f1'' False ''online'']\<rparr>)"
  by (simp add: eval_defs)

text \<open>
  Claim C3. In an iteration whose fetch fails with \<open>e\<close>, \<^verbatim>\<open>OnFailedSync\<close> is called
  with the response and \<open>e\<close>. If it returns an error, \<^verbatim>\<open>Sync\<close> returns that error.
  Otherwise \<^verbatim>\<open>Sync\<close> sleeps for the returned duration and goes on with the same
  cycle variables and the same store: its next call is the request with the same token.
\<close>

theorem failed_fetch_retries_with_same_token:
  assumes "err s = Some e"
  shows "(snd (failed s) = Some e2 \<longrightarrow>
            Sync_loop c (s # ss) cli =
              (Returned (Some e2),
               cli\<lparr>syncingID := syncingID cli + of_nat (others s),
                   calls := calls cli @ [request c cli, COnFailedSync (resSync s) e]\<rparr>))
       \<and> (snd (failed s) = None \<longrightarrow>
            Sync_loop c (s # ss) cli =
              Sync_loop c ss
                (cli\<lparr>syncingID := syncingID cli + of_nat (others s),
                     calls := calls cli @ [request c cli, COnFailedSync (resSync s) e,
                                           CSleep (fst (failed s))]\<rparr>)
          \<and> take 4 (since_calls cli (snd (Sync_loop c (s # ss) cli))) =
              [CSyncRequest 30000 (c_nextBatch c) (c_filterID c) False (SyncPresence cli),
               COnFailedSync (resSync s) e, CSleep (fst (failed s)),
               CSyncRequest 30000 (c_nextBatch c) (c_filterID c) False (SyncPresence cli)])"
proof -
  note b = Sync_body_failed[OF assms, of c cli]
  let ?cli = "cli\<lparr>syncingID := syncingID cli + of_nat (others s),
                     calls := calls cli @ [request c cli, COnFailedSync (resSync s) e,
                                           CSleep (fst (failed s))]\<rparr>"
  have 1: "Sync_loop c (s # ss) cli =
              (Returned (Some e2),
               cli\<lparr>syncingID := syncingID cli + of_nat (others s),
                   calls := calls cli @ [request c cli, COnFailedSync (resSync s) e]\<rparr>)"
    if "snd (failed s) = Some e2"
    using that by (simp add: b)
  have 2: "Sync_loop c (s # ss) cli = Sync_loop c ss ?cli" if "snd (failed s) = None"
    using that by (simp add: b)
  have 3: "take 4 (since_calls cli (snd (Sync_loop c (s # ss) cli))) =
              [CSyncRequest 30000 (c_nextBatch c) (c_filterID c) False (SyncPresence cli),
               COnFailedSync (resSync s) e, CSleep (fst (failed s)),
               CSyncRequest 30000 (c_nextBatch c) (c_filterID c) False (SyncPresence cli)]"
    if n: "snd (failed s) = None"
  proof -
    obtain es where "calls (snd (Sync_loop c ss ?cli)) = calls ?cli @ request c ?cli # es"
      using Sync_loop_calls by blast
    then have "since_calls cli (snd (Sync_loop c (s # ss) cli)) =
        [request c cli, COnFailedSync (resSync s) e, CSleep (fst (failed s)), request c ?cli] @ es"
      unfolding 2[OF n] by simp
    then show ?thesis by (simp add: request_def)
  qed
  from 1 2 3 show ?thesis by blast
qed

theorem failed_fetch_retries_with_same_token_witness:
  "err (ex_fail 0 (2000000000, None)) = Some (ErrorString ''timeout'')
   \<and> snd (failed (ex_fail 0 (2000000000, None))) = None
   \<and> take 4 (since_calls ex_cli (snd (Sync_loop ex_cycle [ex_fail 0 (2000000000, None)] ex_cli))) =
       [CSyncRequest 30000 ''s1'' ''f1'' False ''online'',
        COnFailedSync None (ErrorString ''timeout''), CSleep 2000000000,
        CSyncRequest 30000 ''s1'' ''f1'' False ''online'']
   \<and> err (ex_fail 0 (0, Some (ErrorString ''give up''))) = Some (ErrorString ''timeout'')
   \<and> snd (failed (ex_fail 0 (0, Some (ErrorString ''give up'')))) = Some (ErrorString ''give up'')
   \<and> Sync_loop ex_cycle [ex_fail 0 (0, Some (ErrorString ''give up''))] ex_cli =
       (Returned (Some (ErrorString ''give up'')),
        ex_cli\<lparr>calls := [CSyncRequest 30000 ''s1'' ''f1'' False ''online'',
                          COnFailedSync None (ErrorString ''timeout'')]\<rparr>)"
  using failed_fetch_retries_with_same_token[of "ex_fail 0 (2000000000, None)"
      "ErrorString ''timeout''" "ErrorString ''give up''" ex_cycle "[]" ex_cli]
    failed_fetch_retries_with_same_token[of "ex_fail 0 (0, Some (ErrorString ''give up''))"
      "ErrorString ''timeout''" "ErrorString ''give up''" ex_cycle "[]" ex_cli]
  by (simp add: eval_defs)

text \<open>
  Claim C4. Let a cycle stay the live one while each of its fetches either succeeds
  with a payload or fails and is retried, \<^verbatim>\<open>ProcessResponse\<close> failing on the last
  answer at most. Then the store sees \<^verbatim>\<open>SaveNextBatch\<close> for the tokens of the fetched
  payloads, in the order of the fetches, and \<^verbatim>\<open>ProcessResponse\<close> is called once for
  each fetched payload, in this order, with the token that was current before its
  fetch: the starting token for the first payload, the token of the payload before it
  for every other. When no fetch fails, these are the tokens the fetches were sent with.
\<close>

theorem saves_and_processing_in_fetch_order:
  assumes "\<forall>s\<in>set ss. others s = 0 \<and> (fetch_ok s \<or> fetch_retried s)"
    and "\<forall>s\<in>set (butlast ss). processed s = None"
    and "syncingID cli = c_syncingID c"
  shows "saved_tokens (since_calls cli (snd (Sync_loop c ss cli))) =
           map (\<lambda>r. (UserID cli, NextBatch r)) (payloads ss)
       \<and> processed_payloads (since_calls cli (snd (Sync_loop c ss cli))) =
           zip (payloads ss) (c_nextBatch c # map NextBatch (payloads ss))
       \<and> ((\<forall>s\<in>set ss. fetch_ok s) \<longrightarrow>
            take (length ss) (fetch_tokens (since_calls cli (snd (Sync_loop c ss cli)))) =
              take (length ss) (c_nextBatch c # map NextBatch (payloads ss)))"
proof -
  obtain es where es: "calls (snd (Sync_loop c ss cli)) = calls cli @ request c cli # es"
    using Sync_loop_calls by blast
  then have s: "since_calls cli (snd (Sync_loop c ss cli)) = request c cli # es" by simp
  have 1: "saved_tokens (since_calls cli (snd (Sync_loop c ss cli))) =
           map (\<lambda>r. (UserID cli, NextBatch r)) (payloads ss)"
    using Sync_loop_projections[OF assms] unfolding s es by simp
  have 2: "processed_payloads (since_calls cli (snd (Sync_loop c ss cli))) =
           zip (payloads ss) (c_nextBatch c # map NextBatch (payloads ss))"
    using Sync_loop_projections[OF assms] unfolding s es by simp
  have 3: "take (length ss) (fetch_tokens (since_calls cli (snd (Sync_loop c ss cli)))) =
              take (length ss) (c_nextBatch c # map NextBatch (payloads ss))"
    if "\<forall>s\<in>set ss. fetch_ok s"
  proof -
    have a: "list_all2 (\<lambda>s r. err s = None \<and> others s = 0 \<and> resSync s = Some r) ss (payloads ss)"
      using that assms(1) by (intro all_ok_payloads) auto
    then have l: "length (payloads ss) = length ss" by (simp add: list_all2_lengthD)
    show ?thesis
      using Sync_loop_applied[OF a assms(2,3)] l
      by (simp add: fetch_tokens_applied)
  qed
  from 1 2 3 show ?thesis by blast
qed

theorem saves_and_processing_in_fetch_order_witness:
  "list_all (\<lambda>s. others s = 0 \<and> (fetch_ok s \<or> fetch_retried s))
     [ex_ok 0 ''s2'' None, ex_fail 0 (5, None), ex_ok 0 ''s3'' None]
   \<and> list_all (\<lambda>s. processed s = None)
       (butlast [ex_ok 0 ''s2'' None, ex_fail 0 (5, None), ex_ok 0 ''s3'' None])
   \<and> syncingID ex_cli = c_syncingID ex_cycle
   \<and> payloads [ex_ok 0 ''s2'' None, ex_fail 0 (5, None), ex_ok 0 ''s3'' None] =
       [ex_resp ''s2'', ex_resp ''s3'']
   \<and> saved_tokens (since_calls ex_cli
        (snd (Sync_loop ex_cycle [ex_ok 0 ''s2'' None, ex_fail 0 (5, None), ex_ok 0 ''s3'' None]
           ex_cli))) =
       [(''@alice:hs'', ''s2''), (''@alice:hs'', ''s3'')]
   \<and> processed_payloads (since_calls ex_cli
        (snd (Sync_loop ex_cycle [ex_ok 0 ''s2'' None, ex_fail 0 (5, None), ex_ok 0 ''s3'' None]
           ex_cli))) =
       [(ex_resp ''s2'', ''s1''), (ex_resp ''s3'', ''s2'')]
   \<and> list_all fetch_ok [ex_ok 0 ''s2'' None, ex_ok 0 ''s3'' None]
   \<and> fetch_tokens (since_calls ex_cli
        (snd (Sync_loop ex_cycle [ex_ok 0 ''s2'' None, ex_ok 0 ''s3'' None] ex_cli))) =
       [''s1'', ''s2'', ''s3'']"
  using saves_and_processing_in_fetch_order[of
      "[ex_ok 0 ''s2'' None, ex_fail 0 (5, None), ex_ok 0 ''s3'' None]" ex_cli ex_cycle]
    saves_and_processing_in_fetch_order[of
      "[ex_ok 0 ''s2'' None, ex_ok 0 ''s3'' None]" ex_cli ex_cycle]
  by (simp add: eval_defs fetch_ok_def fetch_retried_def)

text \<open>
  Claim C8. \<^verbatim>\<open>Sync\<close> starts by loading the token and the filter ID from the store.
  It calls \<^verbatim>\<open>CreateFilter\<close> exactly when the loaded filter ID is empty, and not again.
  With a cached filter ID it enters the loop with the loaded values. With none, when
  \<^verbatim>\<open>CreateFilter\<close> answers a filter, \<^verbatim>\<open>Sync\<close> saves its ID with \<^verbatim>\<open>SaveFilterID\<close> and
  then enters the loop with it; when \<^verbatim>\<open>CreateFilter\<close> fails with \<open>e\<close>, \<^verbatim>\<open>Sync\<close>
  returns \<open>e\<close> having sent no sync request.
\<close>

theorem filter_resolved_before_loop:
  "take 2 (since_calls cli (snd (Sync fj cf ss cli))) =
     [CLoadNextBatch (UserID cli), CLoadFilterID (UserID cli)]
   \<and> filter is_create (since_calls cli (snd (Sync fj cf ss cli))) =
       (if LoadFilterID (Store cli) (UserID cli) = [] then [CCreateFilter fj] else [])
   \<and> (LoadFilterID (Store cli) (UserID cli) \<noteq> [] \<longrightarrow>
        Sync fj cf ss cli =
          Sync_loop \<lparr>c_syncingID = syncingID cli + 1,
                     c_nextBatch = LoadNextBatch (Store cli) (UserID cli),
                     c_filterID = LoadFilterID (Store cli) (UserID cli)\<rparr> ss
            (cli\<lparr>syncingID := syncingID cli + 1,
                 calls := calls cli @ [CLoadNextBatch (UserID cli), CLoadFilterID (UserID cli)]\<rparr>))
   \<and> (LoadFilterID (Store cli) (UserID cli) = [] \<and> cf = (Some rf, None) \<longrightarrow>
        Sync fj cf ss cli =
          Sync_loop \<lparr>c_syncingID = syncingID cli + 1,
                     c_nextBatch = LoadNextBatch (Store cli) (UserID cli),
                     c_filterID = FilterID rf\<rparr> ss
            (cli\<lparr>syncingID := syncingID cli + 1,
                 Store := SaveFilterID (Store cli) (UserID cli) (FilterID rf),
                 calls := calls cli @ [CLoadNextBatch (UserID cli), CLoadFilterID (UserID cli),
                                       CGetFilterJSON (UserID cli), CCreateFilter fj,
                                       CSaveFilterID (UserID cli) (FilterID rf)]\<rparr>))
   \<and> (LoadFilterID (Store cli) (UserID cli) = [] \<and> snd cf = Some e \<longrightarrow>
        Sync fj cf ss cli =
          (Returned (Some e),
           cli\<lparr>syncingID := syncingID cli + 1,
               calls := calls cli @ [CLoadNextBatch (UserID cli), CLoadFilterID (UserID cli),
                                     CGetFilterJSON (UserID cli), CCreateFilter fj]\<rparr>)
      \<and> fetch_tokens (since_calls cli (snd (Sync fj cf ss cli))) = [])"
  using Sync_loads_first[of cli fj cf ss] Sync_creates_iff_empty[of cli fj cf ss]
    Sync_cached[of cli fj cf ss] Sync_created[of cli cf rf fj ss]
    Sync_create_failed[of cli cf e fj ss]
  by simp

theorem filter_resolved_before_loop_witness:
  "LoadFilterID (Store ex_cli) (UserID ex_cli) \<noteq> []
   \<and> filter is_create (since_calls ex_cli (snd (Sync ''{}'' (None, None) [] ex_cli))) = []
   \<and> Sync ''{}'' (None, None) [] ex_cli =
       (Blocked,
        ex_cli\<lparr>syncingID := 2,
               calls := [CLoadNextBatch ''@alice:hs'', CLoadFilterID ''@alice:hs'',
                         CSyncRequest 30000 ''s1'' ''f1'' False ''online'']\<rparr>)
   \<and> LoadFilterID (Store ex_fresh) (UserID ex_fresh) = []
   \<and> Sync ''{}'' (Some \<lparr>FilterID = ''f9''\<rparr>, None) [] ex_fresh =
       (Blocked,
        ex_fresh\<lparr>syncingID := 1,
                 Store := \<lparr>next_batch = Map.empty, filter_id = [''@alice:hs'' \<mapsto> ''f9'']\<rparr>,
                 calls := [CLoadNextBatch ''@alice:hs'', CLoadFilterID ''@alice:hs'',
                           CGetFilterJSON ''@alice:hs'', CCreateFilter ''{}'',
                           CSaveFilterID ''@alice:hs'' ''f9'',
                           CSyncRequest 30000 [] ''f9'' False ''online'']\<rparr>)
   \<and> snd (None :: RespCreateFilter option, Some (ErrorString ''forbidden'')) =
       Some (ErrorString ''forbidden'')
   \<and> Sync ''{}'' (None, Some (ErrorString ''forbidden'')) [ex_ok 0 ''s2'' None] ex_fresh =
       (Returned (Some (ErrorString ''forbidden'')),
        ex_fresh\<lparr>syncingID := 1,
                 calls := [CLoadNextBatch ''@alice:hs'', CLoadFilterID ''@alice:hs'',
                           CGetFilterJSON ''@alice:hs'', CCreateFilter ''{}'']\<rparr>)"
  using filter_resolved_before_loop[of ex_cli "''{}''" "(None, None)" "[]"]
    filter_resolved_before_loop[of ex_fresh "''{}''" "(Some \<lparr>FilterID = ''f9''\<rparr>, None)" "[]"
      "\<lparr>FilterID = ''f9''\<rparr>"]
    filter_resolved_before_loop[of ex_fresh "''{}''" "(None, Some (ErrorString ''forbidden''))"
      "[ex_ok 0 ''s2'' None]" _ "ErrorString ''forbidden''"]
  by (simp add: eval_defs)

text \<open>
  Claim C10. The generation is compared on the success path only. Let the fetches
  \<open>fs\<close> of a cycle fail with the handler returning no error, and the next fetch \<open>s\<close>
  succeed while the generation differs from the captured one. Then each failing
  iteration, whatever the generation, calls \<^verbatim>\<open>OnFailedSync\<close>, sleeps and continues
  with the same cycle variables, and \<^verbatim>\<open>Sync\<close> returns nil only at \<open>s\<close>.
\<close>

theorem generation_checked_only_after_success:
  assumes "\<forall>f\<in>set fs. err f \<noteq> None \<and> snd (failed f) = None"
    and "err s = None"
    and "syncingID cli + of_nat (sum_list (map others fs) + others s) \<noteq> c_syncingID c"
  shows "Sync_loop c (fs @ s # ss) cli =
           (Returned None,
            cli\<lparr>syncingID := syncingID cli + of_nat (sum_list (map others fs) + others s),
                calls := calls cli @
                  concat (map (\<lambda>f. [request c cli, COnFailedSync (resSync f) (the (err f)),
                                    CSleep (fst (failed f))]) fs) @ [request c cli]\<rparr>)
       \<and> (\<forall>f\<in>set fs. \<forall>cli'.
            fst (Sync_body c f cli') = Continue c
          \<and> take 3 (since_calls cli' (snd (Sync_body c f cli'))) =
              [request c cli', COnFailedSync (resSync f) (the (err f)), CSleep (fst (failed f))])"
proof -
  let ?cli = "cli\<lparr>syncingID := syncingID cli + of_nat (sum_list (map others fs)),
                  calls := calls cli @
                    concat (map (\<lambda>f. [request c cli, COnFailedSync (resSync f) (the (err f)),
                                      CSleep (fst (failed f))]) fs)\<rparr>"
  have sup: "syncingID ?cli + of_nat (others s) \<noteq> c_syncingID c"
    using assms(3) by (simp add: add.assoc)
  have "Sync_loop c (fs @ s # ss) cli = Sync_loop c (s # ss) ?cli"
    by (rule Sync_loop_failures[OF assms(1)])
  also have "\<dots> = (Returned None,
            cli\<lparr>syncingID := syncingID cli + of_nat (sum_list (map others fs) + others s),
                calls := calls cli @
                  concat (map (\<lambda>f. [request c cli, COnFailedSync (resSync f) (the (err f)),
                                    CSleep (fst (failed f))]) fs) @ [request c cli]\<rparr>)"
    unfolding Sync_loop.simps Sync_body_superseded[OF assms(2) sup]
    by (simp add: request_def add.assoc)
  finally have 1: "Sync_loop c (fs @ s # ss) cli = (Returned None,
            cli\<lparr>syncingID := syncingID cli + of_nat (sum_list (map others fs) + others s),
                calls := calls cli @
                  concat (map (\<lambda>f. [request c cli, COnFailedSync (resSync f) (the (err f)),
                                    CSleep (fst (failed f))]) fs) @ [request c cli]\<rparr>)" .
  have 2: "fst (Sync_body c f cli') = Continue c
          \<and> take 3 (since_calls cli' (snd (Sync_body c f cli'))) =
              [request c cli', COnFailedSync (resSync f) (the (err f)), CSleep (fst (failed f))]"
    if "f \<in> set fs" for f cli'
  proof -
    from that assms(1) obtain e where e: "err f = Some e" and h: "snd (failed f) = None" by auto
    show ?thesis using h by (simp add: Sync_body_failed[OF e] e)
  qed
  from 1 2 show ?thesis by blast
qed

theorem generation_checked_only_after_success_witness:
  "list_all (\<lambda>f. err f \<noteq> None \<and> snd (failed f) = None) [ex_fail 1 (5, None)]
   \<and> err (ex_ok 1 ''s2'' None) = None
   \<and> syncingID ex_cli + of_nat (sum_list (map others [ex_fail 1 (5, None)])
        + others (ex_ok 1 ''s2'' None)) \<noteq> c_syncingID ex_cycle
   \<and> Sync_loop ex_cycle [ex_fail 1 (5, None), ex_ok 1 ''s2'' None] ex_cli =
       (Returned None,
        ex_cli\<lparr>syncingID := 3,
               calls := [CSyncRequest 30000 ''s1'' ''f1'' False ''online'',
                         COnFailedSync None (ErrorString ''timeout''), CSleep 5,
                         CSyncRequest 30000 ''s1'' ''f1'' False ''online'']\<rparr>)
   \<and> fst (Sync_body ex_cycle (ex_fail 1 (5, None)) ex_stale) = Continue ex_cycle"
  using generation_checked_only_after_success[of "[ex_fail 1 (5, None)]" "ex_ok 1 ''s2'' None"
      ex_cli ex_cycle "[]"]
  by (simp add: eval_defs)

section \<open>Claims about checkpoints and requests\<close>

text \<open>
  Claim C5. For every event, the checkpoint of \<^verbatim>\<open>SendMessageSendCheckpoint\<close> has status
  \<^verbatim>\<open>SUCCESS\<close> and an empty \<open>Info\<close>; the checkpoint of \<^verbatim>\<open>SendErrorMessageSendCheckpoint\<close>
  has status \<^verbatim>\<open>PERM_FAILURE\<close> when the permanent flag is set and \<^verbatim>\<open>WILL_RETRY\<close>
  otherwise, and its \<open>Info\<close> is the text of the error; \<open>ReportedBy\<close> of every checkpoint
  built by \<^verbatim>\<open>NewMessageSendCheckpoint\<close> or by the two helpers is \<^verbatim>\<open>BRIDGE\<close>, which is
  not \<^verbatim>\<open>ASMUX\<close>.
\<close>

theorem checkpoint_construction_rules:
  "Info (fst (SendMessageSendCheckpoint EventMessage now env as evt step)) = []
   \<and> Status (fst (SendMessageSendCheckpoint EventMessage now env as evt step)) = StatusSuccesss
   \<and> Status (fst (SendErrorMessageSendCheckpoint EventMessage now env as rs evt step e permanent)) =
       (if permanent then StatusPermFailure else StatusWillRetry)
   \<and> Info (fst (SendErrorMessageSendCheckpoint EventMessage now env as rs evt step e permanent)) =
       Error rs e
   \<and> ReportedBy (NewMessageSendCheckpoint EventMessage now evt step status) = ReportedByBridge
   \<and> ReportedBy (fst (SendMessageSendCheckpoint EventMessage now env as evt step)) =
       ReportedByBridge
   \<and> ReportedBy (fst (SendErrorMessageSendCheckpoint EventMessage now env as rs evt step e permanent)) =
       ReportedByBridge
   \<and> ReportedByBridge \<noteq> ReportedByAsmux"
proof -
  let ?ok = "fst (SendMessageSendCheckpoint EventMessage now env as evt step)"
  let ?failed =
    "fst (SendErrorMessageSendCheckpoint EventMessage now env as rs evt step e permanent)"
  have ok: "?ok = NewMessageSendCheckpoint EventMessage now evt step StatusSuccesss"
    by (simp add: SendMessageSendCheckpoint_def Let_def)
  have failed: "?failed =
      (NewMessageSendCheckpoint EventMessage now evt step
         (if permanent then StatusPermFailure else StatusWillRetry))\<lparr>Info := Error rs e\<rparr>"
    by (simp add: SendErrorMessageSendCheckpoint_def Let_def)
  have "Info ?ok = []" and "Status ?ok = StatusSuccesss" and "ReportedBy ?ok = ReportedByBridge"
    unfolding ok by (simp_all add: NewMessageSendCheckpoint_fields)
  moreover have "Status ?failed = (if permanent then StatusPermFailure else StatusWillRetry)"
    and "Info ?failed = Error rs e" and "ReportedBy ?failed = ReportedByBridge"
    unfolding failed by (simp_all add: NewMessageSendCheckpoint_fields)
  moreover have "ReportedByBridge \<noteq> ReportedByAsmux"
    by (simp add: ReportedByBridge_def ReportedByAsmux_def)
  ultimately show ?thesis
    by (simp add: NewMessageSendCheckpoint_fields)
qed

theorem checkpoint_construction_rules_witness:
  "Info (fst (SendMessageSendCheckpoint ''m.room.message'' 0 (ex_env 200) (ex_as False [])
            ex_evt StepRemote)) = []
   \<and> Status (fst (SendErrorMessageSendCheckpoint ''m.room.message'' 0 (ex_env 200)
        (ex_as False []) (\<lambda>r. ErrCode r) ex_evt StepRemote (ErrorString ''no route'') True)) =
       ''PERM_FAILURE''
   \<and> Status (fst (SendErrorMessageSendCheckpoint ''m.room.message'' 0 (ex_env 200)
        (ex_as False []) (\<lambda>r. ErrCode r) ex_evt StepRemote (ErrorString ''no route'') False)) =
       ''WILL_RETRY''
   \<and> Info (fst (SendErrorMessageSendCheckpoint ''m.room.message'' 0 (ex_env 200)
        (ex_as False []) (\<lambda>r. ErrCode r) ex_evt StepRemote (ErrorString ''no route'') True)) =
       ''no route''
   \<and> ReportedBy (fst (SendErrorMessageSendCheckpoint ''m.room.message'' 0 (ex_env 200)
        (ex_as False []) (\<lambda>r. ErrCode r) ex_evt StepRemote (ErrorString ''no route'') True)) =
       ''BRIDGE''"
  using checkpoint_construction_rules[where EventMessage = "''m.room.message''" and now = 0
      and env = "ex_env 200" and as = "ex_as False []" and evt = ex_evt and step = StepRemote
      and rs = "\<lambda>r. ErrCode r" and e = "ErrorString ''no route''" and permanent = True]
    checkpoint_construction_rules[where EventMessage = "''m.room.message''" and now = 0
      and env = "ex_env 200" and as = "ex_as False []" and evt = ex_evt and step = StepRemote
      and rs = "\<lambda>r. ErrCode r" and e = "ErrorString ''no route''" and permanent = False]
  by (simp add: StatusPermFailure_def StatusWillRetry_def ReportedByBridge_def)

text \<open>
  Claim C6, amended. \<^verbatim>\<open>SendCheckpoints\<close> tries its sinks in a fixed order. With a
  websocket it sends the batch as one \<^verbatim>\<open>message_checkpoint\<close> command and returns the
  result of that send. Otherwise, with an empty endpoint, it returns nil and sends
  nothing. Otherwise it sends at most one request: when the batch does not encode, or
  the request cannot be built, it returns that error and sends nothing; else it sends
  one POST of the encoded batch to the endpoint, with the bearer token and a deadline
  of five seconds, and returns an error when the transport fails or the status is not
  between 200 and 299, and nil otherwise.

  As stated, the claim has a POST sent whenever there is no websocket and the endpoint
  is not empty; the source returns before sending when the encoder or
  \<^verbatim>\<open>http.NewRequestWithContext\<close> fails.
\<close>

theorem dispatch_sinks_in_order:
  "(HasWebsocket as \<longrightarrow>
      SendCheckpoints env as cps =
        (SendWebsocket env \<lparr>Command = ''message_checkpoint'', Data = \<lparr>Checkpoints = cps\<rparr>\<rparr>,
         [WebsocketSend \<lparr>Command = ''message_checkpoint'', Data = \<lparr>Checkpoints = cps\<rparr>\<rparr>]))
   \<and> (\<not> HasWebsocket as \<and> MessageSendCheckpointEndpoint as = [] \<longrightarrow>
        SendCheckpoints env as cps = (None, []))
   \<and> (\<not> HasWebsocket as \<and> MessageSendCheckpointEndpoint as \<noteq> [] \<longrightarrow>
        length (snd (SendCheckpoints env as cps)) \<le> 1
      \<and> (json_Encode env \<lparr>Checkpoints = cps\<rparr> = Inl e \<longrightarrow>
           SendCheckpoints env as cps =
             (Some (Errorf_w ''failed to encode message send checkpoint JSON: '' e), []))
      \<and> (json_Encode env \<lparr>Checkpoints = cps\<rparr> = Inr body
         \<and> NewRequestWithContext env ''POST'' (MessageSendCheckpointEndpoint as) = Some e \<longrightarrow>
           SendCheckpoints env as cps = (Some e, []))
      \<and> (json_Encode env \<lparr>Checkpoints = cps\<rparr> = Inr body
         \<and> NewRequestWithContext env ''POST'' (MessageSendCheckpointEndpoint as) = None \<longrightarrow>
           snd (SendCheckpoints env as cps) = [HTTPDo (checkpoint_request env as body)]
         \<and> Method (checkpoint_request env as body) = ''POST''
         \<and> URL (checkpoint_request env as body) = MessageSendCheckpointEndpoint as
         \<and> Body (checkpoint_request env as body) = Some body
         \<and> Header (checkpoint_request env as body) ''Authorization'' =
             Some (''Bearer '' @ AppToken as)
         \<and> Timeout (checkpoint_request env as body) = Some (5 * 1000000000)
         \<and> (Do env (checkpoint_request env as body) = Inl e \<longrightarrow>
              fst (SendCheckpoints env as cps) =
                Some (Errorf_w ''Failed to send bridge state update: '' e))
         \<and> (Do env (checkpoint_request env as body) = Inr resp \<longrightarrow>
              fst (SendCheckpoints env as cps) =
                (if 200 \<le> StatusCode resp \<and> StatusCode resp \<le> 299 then None
                 else Some (ErrorString
                        (''Unexpected status code '' @ itoa (StatusCode resp)
                         @ '' sending bridge state update: ''
                         @ escape_newlines (RespBody resp)))))))"
  by (auto simp: SendCheckpoints_def checkpoint_request_def Second_def Let_def
      split: sum.splits option.splits)

theorem dispatch_sinks_in_order_witness:
  "HasWebsocket (ex_as True ''https://t/cp'')
   \<and> SendCheckpoints (ex_env 200) (ex_as True ''https://t/cp'') [] =
       (Some (ErrorString ''websocket closed''),
        [WebsocketSend \<lparr>Command = ''message_checkpoint'', Data = \<lparr>Checkpoints = []\<rparr>\<rparr>])
   \<and> \<not> HasWebsocket (ex_as False []) \<and> MessageSendCheckpointEndpoint (ex_as False []) = []
   \<and> SendCheckpoints (ex_env 200) (ex_as False []) [] = (None, [])
   \<and> \<not> HasWebsocket (ex_as False ''https://t/cp'')
   \<and> MessageSendCheckpointEndpoint (ex_as False ''https://t/cp'') \<noteq> []
   \<and> json_Encode (ex_env 502) \<lparr>Checkpoints = []\<rparr> = Inr ''{}''
   \<and> NewRequestWithContext (ex_env 502) ''POST''
        (MessageSendCheckpointEndpoint (ex_as False ''https://t/cp'')) = None
   \<and> Do (ex_env 502) (checkpoint_request (ex_env 502) (ex_as False ''https://t/cp'') ''{}'') =
        Inr \<lparr>StatusCode = 502, RespBody = ''Bad Gateway'', ReadErr = None\<rparr>
   \<and> SendCheckpoints (ex_env 502) (ex_as False ''https://t/cp'') [] =
       (Some (ErrorString ''Unexpected status code 502 sending bridge state update: Bad Gateway''),
        [HTTPDo (checkpoint_request (ex_env 502) (ex_as False ''https://t/cp'') ''{}'')])
   \<and> SendCheckpoints (ex_env 200) (ex_as False ''https://t/cp'') [] =
       (None, [HTTPDo (checkpoint_request (ex_env 200) (ex_as False ''https://t/cp'') ''{}'')])
   \<and> NewRequestWithContext (ex_env 200) ''POST''
        (MessageSendCheckpointEndpoint (ex_as False ''://telemetry'')) =
        Some (ErrorString ''missing protocol scheme'')
   \<and> SendCheckpoints (ex_env 200) (ex_as False ''://telemetry'') [] =
       (Some (ErrorString ''missing protocol scheme''), [])"
  using dispatch_sinks_in_order[where as = "ex_as True ''https://t/cp''" and env = "ex_env 200"
      and cps = "[]"]
    dispatch_sinks_in_order[where as = "ex_as False []" and env = "ex_env 200" and cps = "[]"]
    dispatch_sinks_in_order[where as = "ex_as False ''https://t/cp''" and env = "ex_env 502"
      and cps = "[]" and body = "''{}''"
      and resp = "\<lparr>StatusCode = 502, RespBody = ''Bad Gateway'', ReadErr = None\<rparr>"]
    dispatch_sinks_in_order[where as = "ex_as False ''://telemetry''" and env = "ex_env 200"
      and cps = "[]" and e = "ErrorString ''missing protocol scheme''" and body = "''{}''"]
  by (simp add: SendCheckpoints_def ex_as_def ex_env_def checkpoint_request_def Second_def
      itoa_def digits.simps)

text \<open>
  The counterexample to claim C6 as stated: no websocket, and an endpoint that is not
  empty and does not parse as a URL. \<^verbatim>\<open>SendCheckpoints\<close> returns the error of
  \<^verbatim>\<open>http.NewRequestWithContext\<close> and sends no POST.
\<close>

theorem dispatch_without_request_counterexample:
  "\<not> HasWebsocket (ex_as False ''://telemetry'')
   \<and> MessageSendCheckpointEndpoint (ex_as False ''://telemetry'') \<noteq> []
   \<and> SendCheckpoints (ex_env 200) (ex_as False ''://telemetry'') [] =
       (Some (ErrorString ''missing protocol scheme''), [])"
  by (simp add: SendCheckpoints_def ex_as_def ex_env_def)


text \<open>
  Claim C7. Let \<^verbatim>\<open>MakeRequest\<close> receive a response whose status is not between 200 and
  299. If the body does not decode into a \<^verbatim>\<open>RespError\<close> with a non-empty code, the
  error returned is an \<^verbatim>\<open>HTTPError\<close> whose message ends with the body as it was read,
  so that the body is part of the message and of the text of the error. If it does,
  the \<^verbatim>\<open>RespError\<close> is the wrapped error of the \<^verbatim>\<open>HTTPError\<close>.
\<close>

theorem error_response_keeps_body:
  assumes "reqBody = map_option Inr body"
    and "NewRequest env method httpURL = Inr path"
    and "ClientDo env (json_request cli method httpURL body) = Inr res"
    and "StatusCode res < 200 \<or> 299 < StatusCode res"
  shows "(ErrCode (Unmarshal_RespError env (RespBody res)) = [] \<longrightarrow>
            MakeRequest env cli method httpURL reqBody resBody =
              (Some (RespBody res),
               Some (HTTPError None None
                       (''Failed to '' @ method @ '' JSON to '' @ path @ '': '' @ RespBody res)
                       (StatusCode res)))
          \<and> sublist (RespBody res)
              (Message (HTTPError None None
                       (''Failed to '' @ method @ '' JSON to '' @ path @ '': '' @ RespBody res)
                       (StatusCode res)))
          \<and> sublist (RespBody res)
              (Error rs (HTTPError None None
                       (''Failed to '' @ method @ '' JSON to '' @ path @ '': '' @ RespBody res)
                       (StatusCode res))))
       \<and> (ErrCode (Unmarshal_RespError env (RespBody res)) \<noteq> [] \<longrightarrow>
            MakeRequest env cli method httpURL reqBody resBody =
              (Some (RespBody res),
               Some (HTTPError (Some (RespErrorE (Unmarshal_RespError env (RespBody res))))
                       (Some (Unmarshal_RespError env (RespBody res)))
                       (''Failed to '' @ method @ '' JSON to '' @ path)
                       (StatusCode res))))"
proof -
  have non2xx: "quot (StatusCode res) 100 \<noteq> 2"
    using assms(4) by (auto simp: quot_2xx)
  have body: "(case reqBody of None \<Rightarrow> Inr None | Some (Inl e) \<Rightarrow> Inl e
               | Some (Inr jsonStr) \<Rightarrow> Inr (Some jsonStr)) = Inr body"
    using assms(1) by (cases body) simp_all
  have 1: "MakeRequest env cli method httpURL reqBody resBody =
              (Some (RespBody res),
               Some (HTTPError None None
                       (''Failed to '' @ method @ '' JSON to '' @ path @ '': '' @ RespBody res)
                       (StatusCode res)))"
    if "ErrCode (Unmarshal_RespError env (RespBody res)) = []"
    unfolding MakeRequest_def body using that assms(2,3) non2xx by (simp add: Let_def)
  have 2: "MakeRequest env cli method httpURL reqBody resBody =
              (Some (RespBody res),
               Some (HTTPError (Some (RespErrorE (Unmarshal_RespError env (RespBody res))))
                       (Some (Unmarshal_RespError env (RespBody res)))
                       (''Failed to '' @ method @ '' JSON to '' @ path)
                       (StatusCode res)))"
    if "ErrCode (Unmarshal_RespError env (RespBody res)) \<noteq> []"
    unfolding MakeRequest_def body using that assms(2,3) non2xx by (simp add: Let_def)
  have 3: "sublist (RespBody res)
              (Message (HTTPError None None
                       (''Failed to '' @ method @ '' JSON to '' @ path @ '': '' @ RespBody res)
                       (StatusCode res)))"
    using sublist_in_message[of "RespBody res" "[]" "''Failed to '' @ method @ '' JSON to '' @ path @ '': ''" "[]"]
    by simp
  have 4: "sublist (RespBody res)
              (Error rs (HTTPError None None
                       (''Failed to '' @ method @ '' JSON to '' @ path @ '': '' @ RespBody res)
                       (StatusCode res)))"
    using sublist_in_message[of "RespBody res" "''msg=''"
        "''Failed to '' @ method @ '' JSON to '' @ path @ '': ''"
        "'' code='' @ itoa (StatusCode res) @ '' wrapped=''"]
    by simp
  from 1 2 3 4 show ?thesis by blast
qed

theorem error_response_keeps_body_witness:
  "(None :: (error + string) option) = map_option Inr None
   \<and> NewRequest (ex_renv ''<html>Bad Gateway</html>'') ''GET'' ''https://hs/sync'' =
       Inr ''/_matrix/client/r0/sync''
   \<and> ClientDo (ex_renv ''<html>Bad Gateway</html>'')
       (json_request ex_creds ''GET'' ''https://hs/sync'' None) =
       Inr \<lparr>StatusCode = 502, RespBody = ''<html>Bad Gateway</html>'', ReadErr = None\<rparr>
   \<and> ErrCode (Unmarshal_RespError (ex_renv ''<html>Bad Gateway</html>'')
       ''<html>Bad Gateway</html>'') = []
   \<and> MakeRequest (ex_renv ''<html>Bad Gateway</html>'') ex_creds ''GET'' ''https://hs/sync''
       None True =
       (Some ''<html>Bad Gateway</html>'',
        Some (HTTPError None None
          ''Failed to GET JSON to /_matrix/client/r0/sync: <html>Bad Gateway</html>'' 502))
   \<and> Error (\<lambda>r. ErrCode r) (HTTPError None None
          ''Failed to GET JSON to /_matrix/client/r0/sync: <html>Bad Gateway</html>'' 502) =
       ''msg=Failed to GET JSON to /_matrix/client/r0/sync: <html>Bad Gateway</html> code=502 wrapped=''
   \<and> ErrCode (Unmarshal_RespError (ex_renv ''M_FORBIDDEN'') ''M_FORBIDDEN'') \<noteq> []
   \<and> MakeRequest (ex_renv ''M_FORBIDDEN'') ex_creds ''GET'' ''https://hs/sync'' None True =
       (Some ''M_FORBIDDEN'',
        Some (HTTPError (Some (RespErrorE \<lparr>ErrCode = ''M_FORBIDDEN'', Err = []\<rparr>))
          (Some \<lparr>ErrCode = ''M_FORBIDDEN'', Err = []\<rparr>)
          ''Failed to GET JSON to /_matrix/client/r0/sync'' 502))"
  using error_response_keeps_body[of None None "ex_renv ''<html>Bad Gateway</html>''" "''GET''"
      "''https://hs/sync''" "''/_matrix/client/r0/sync''" ex_creds
      "\<lparr>StatusCode = 502, RespBody = ''<html>Bad Gateway</html>'', ReadErr = None\<rparr>" True
      "\<lambda>r. ErrCode r"]
    error_response_keeps_body[of None None "ex_renv ''M_FORBIDDEN''" "''GET''"
      "''https://hs/sync''" "''/_matrix/client/r0/sync''" ex_creds
      "\<lparr>StatusCode = 502, RespBody = ''M_FORBIDDEN'', ReadErr = None\<rparr>" True
      "\<lambda>r. ErrCode r"]
  by (simp add: ex_renv_def ex_creds_def json_request_def itoa_def digits.simps)

text \<open>
  Claim C9. \<open>RetryNum\<close> is 0 in every checkpoint built by \<^verbatim>\<open>NewMessageSendCheckpoint\<close>
  and in the checkpoints that the two helpers build and hand, unchanged, to
  \<^verbatim>\<open>SendCheckpoints\<close>.
\<close>

theorem retry_num_always_zero:
  "RetryNum (NewMessageSendCheckpoint EventMessage now evt step status) = 0
   \<and> RetryNum (fst (SendMessageSendCheckpoint EventMessage now env as evt step)) = 0
   \<and> RetryNum (fst (SendErrorMessageSendCheckpoint EventMessage now env as rs evt step e permanent)) = 0
   \<and> snd (SendMessageSendCheckpoint EventMessage now env as evt step) =
       SendCheckpoints env as [fst (SendMessageSendCheckpoint EventMessage now env as evt step)]
   \<and> snd (SendErrorMessageSendCheckpoint EventMessage now env as rs evt step e permanent) =
       SendCheckpoints env as
         [fst (SendErrorMessageSendCheckpoint EventMessage now env as rs evt step e permanent)]"
proof -
  have new: "RetryNum (NewMessageSendCheckpoint EventMessage now' evt step status') = 0"
    for now' status'
    by (rule NewMessageSendCheckpoint_fields)
  have ok: "fst (SendMessageSendCheckpoint EventMessage now env as evt step) =
      NewMessageSendCheckpoint EventMessage now evt step StatusSuccesss"
    by (simp add: SendMessageSendCheckpoint_def Let_def)
  have failed: "fst (SendErrorMessageSendCheckpoint EventMessage now env as rs evt step e permanent) =
      (NewMessageSendCheckpoint EventMessage now evt step
         (if permanent then StatusPermFailure else StatusWillRetry))\<lparr>Info := Error rs e\<rparr>"
    by (simp add: SendErrorMessageSendCheckpoint_def Let_def)
  have sent: "snd (SendMessageSendCheckpoint EventMessage now env as evt step) =
       SendCheckpoints env as [fst (SendMessageSendCheckpoint EventMessage now env as evt step)]"
    by (simp add: SendMessageSendCheckpoint_def Send_def Let_def)
  have sent': "snd (SendErrorMessageSendCheckpoint EventMessage now env as rs evt step e permanent) =
       SendCheckpoints env as
         [fst (SendErrorMessageSendCheckpoint EventMessage now env as rs evt step e permanent)]"
    by (simp add: SendErrorMessageSendCheckpoint_def Send_def Let_def)
  show ?thesis
    unfolding ok failed using new sent sent' ok failed by simp
qed

theorem retry_num_always_zero_witness:
  "RetryNum (NewMessageSendCheckpoint ''m.room.message'' 0 ex_evt StepRemote StatusWillRetry) = 0
   \<and> RetryNum (fst (SendMessageSendCheckpoint ''m.room.message'' 0 (ex_env 200) (ex_as True [])
        ex_evt StepRemote)) = 0
   \<and> RetryNum (fst (SendErrorMessageSendCheckpoint ''m.room.message'' 0 (ex_env 200)
        (ex_as True []) (\<lambda>r. ErrCode r) ex_evt StepRemote (ErrorString ''no route'') False)) = 0"
  using retry_num_always_zero[where EventMessage = "''m.room.message''" and now = 0
      and evt = ex_evt and step = StepRemote and status = StatusWillRetry
      and env = "ex_env 200" and as = "ex_as True []" and rs = "\<lambda>r. ErrCode r"
      and e = "ErrorString ''no route''" and permanent = False]
  by simp

end
